theory Spec2Isabelle
  imports Main
begin

section \<open>Retry with exponential backoff (services/daily-brief-generator.js)\<close>

text \<open>
  \<^verbatim>\<open>retryOperation(operation, throwOnFailure = true, maxRetries = 3, baseDelay = 1000)\<close>
  runs \<^verbatim>\<open>operation()\<close> up to \<^verbatim>\<open>maxRetries\<close> times. The operation is an upstream
  call; its outcome at the k-th invocation (counted from 1) is given by a function
  \<open>nat \<Rightarrow> 'e + 'a\<close>, \<open>Inl\<close> being a thrown error. The observable behaviour of the
  helper is the sequence of invocations and sleeps it performs, and how it ends.
\<close>

datatype retry_event = Attempt nat | Delay nat

datatype ('e, 'a) retry_result =
    Returned 'a          \<comment> \<open>\<^verbatim>\<open>return result\<close>\<close>
  | Threw 'e             \<comment> \<open>\<^verbatim>\<open>throw error\<close>\<close>
  | ReturnedEmpty        \<comment> \<open>\<^verbatim>\<open>return []\<close>\<close>
  | ReturnedUndefined    \<comment> \<open>the loop ends without a \<^verbatim>\<open>return\<close>\<close>

function retry_loop ::
  "(nat \<Rightarrow> 'e + 'a) \<Rightarrow> bool \<Rightarrow> nat \<Rightarrow> nat \<Rightarrow> nat \<Rightarrow> retry_event list \<times> ('e, 'a) retry_result"
where
  "retry_loop operation throwOnFailure maxRetries baseDelay attempt =
     (if attempt \<le> maxRetries then
        (case operation attempt of
           Inr result \<Rightarrow> ([Attempt attempt], Returned result)
         | Inl error \<Rightarrow>
             if attempt = maxRetries then
               ([Attempt attempt], if throwOnFailure then Threw error else ReturnedEmpty)
             else
               (let delay = baseDelay * 2 ^ (attempt - 1);
                    (evs, res) = retry_loop operation throwOnFailure maxRetries baseDelay (attempt + 1)
                in (Attempt attempt # Delay delay # evs, res)))
      else ([], ReturnedUndefined))"
  by pat_completeness auto
termination
  by (relation "measure (\<lambda>(operation, throwOnFailure, maxRetries, baseDelay, attempt).
        Suc maxRetries - attempt)") auto

declare retry_loop.simps [simp del]

definition retryOperation ::
  "(nat \<Rightarrow> 'e + 'a) \<Rightarrow> bool \<Rightarrow> nat \<Rightarrow> nat \<Rightarrow> retry_event list \<times> ('e, 'a) retry_result"
where
  "retryOperation operation throwOnFailure maxRetries baseDelay =
     retry_loop operation throwOnFailure maxRetries baseDelay 1"

text \<open>
  The schedule the helper follows when it makes attempts \<open>a, a + 1, ..., n\<close>: every attempt
  \<open>k\<close> after the first of them is preceded by a sleep of \<open>base * 2 ^ (k - 2)\<close>, which is the
  \<^verbatim>\<open>baseDelay * Math.pow(2, attempt - 1)\<close> computed after the failure of attempt \<open>k - 1\<close>.
\<close>

definition backoff_schedule_from :: "nat \<Rightarrow> nat \<Rightarrow> nat \<Rightarrow> retry_event list" where
  "backoff_schedule_from base a n =
     Attempt a # concat (map (\<lambda>k. [Delay (base * 2 ^ (k - 2)), Attempt k]) [Suc a ..< Suc n])"

definition backoff_schedule :: "nat \<Rightarrow> nat \<Rightarrow> retry_event list" where
  "backoff_schedule base n = backoff_schedule_from base 1 n"

text \<open>The schedule as the specification words it: attempt \<open>k\<close> delayed \<open>base * 2 ^ (k - 1)\<close>.\<close>

definition spec_backoff_schedule :: "nat \<Rightarrow> nat \<Rightarrow> retry_event list" where
  "spec_backoff_schedule base n =
     Attempt 1 # concat (map (\<lambda>k. [Delay (base * 2 ^ (k - 1)), Attempt k]) [2 ..< Suc n])"


section \<open>The trigger converter (scheduler.js, convertToCronTime)\<close>

subsection \<open>Values of the registry rows\<close>

text \<open>
  A column of a registry row is a string or \<^verbatim>\<open>null\<close>. The code tests columns with
  \<^verbatim>\<open>!x\<close>: \<^verbatim>\<open>null\<close>, \<^verbatim>\<open>undefined\<close> and the empty string are falsy.
\<close>

definition truthy :: "string option \<Rightarrow> bool" where
  "truthy v = (case v of None \<Rightarrow> False | Some s \<Rightarrow> s \<noteq> [])"

subsection \<open>Time zones as the time zone library holds them\<close>

text \<open>
  \<^verbatim>\<open>convertToCronTime\<close> calls the moment-timezone library, which is not part of the
  repository. Its zone table is a parameter of the model: \<open>tzdata\<close> maps an IANA name to the
  zone's data, \<open>None\<close> for a name the library has no data for. A zone is the library's
  unpacked form: a list of spans \<open>(until, offset)\<close>, where \<open>offset\<close> is the number of
  minutes to add to local time to reach UTC (New York in winter: 300) and is in force for the
  instants before \<open>until\<close> (milliseconds since the epoch, UTC), and the offset in force after
  the last listed span.
\<close>

record zone =
  spans :: "(int \<times> int) list"
  lastOffset :: int

type_synonym tzdata = "string \<Rightarrow> zone option"

text \<open>\<^verbatim>\<open>Zone.utcOffset(timestamp)\<close>: the offset in force at a UTC instant.\<close>

fun offset_at :: "(int \<times> int) list \<Rightarrow> int \<Rightarrow> int \<Rightarrow> int" where
  "offset_at [] final t = final"
| "offset_at ((until, offset) # rest) final t =
     (if t < until then offset else offset_at rest final t)"

definition zone_utcOffset :: "zone \<Rightarrow> int \<Rightarrow> int" where
  "zone_utcOffset z t = offset_at (spans z) (lastOffset z) t"

text \<open>
  \<^verbatim>\<open>Zone.parse(timestamp)\<close>: the offset the library picks for a local wall-clock time,
  given as the timestamp that wall-clock time would have in UTC. The library goes through the
  spans in order and takes the first one that the wall-clock time precedes the end of. With
  its defaults (\<^verbatim>\<open>moveInvalidForward = true\<close>, \<^verbatim>\<open>moveAmbiguousForward = false\<close>) the
  end of a span that is followed by a smaller offset (the clocks jump forward there) is
  compared through that following offset, so a wall-clock time that the jump skips is resolved
  with the offset of before the jump and lands after it; a wall-clock time that occurs twice
  (the clocks fall back) is resolved with the earlier offset.
\<close>

fun next_offset :: "(int \<times> int) list \<Rightarrow> int \<Rightarrow> int" where
  "next_offset [] final = final"
| "next_offset ((until, offset) # rest) final = offset"

fun parse_at :: "(int \<times> int) list \<Rightarrow> int \<Rightarrow> int \<Rightarrow> int" where
  "parse_at [] final target = final"
| "parse_at ((until, offset) # rest) final target =
     (let offsetNext = next_offset rest final;
          off = (if offset > offsetNext then offsetNext else offset)
      in if target < until - off * 60000 then offset
         else parse_at rest final target)"

definition zone_parse :: "zone \<Rightarrow> int \<Rightarrow> int" where
  "zone_parse z target = parse_at (spans z) (lastOffset z) target"

text \<open>
  The wall-clock times that do not exist in a zone: where a span is followed by a smaller
  offset the clocks jump forward at its end, from the wall-clock time \<open>until - offset\<close> to
  \<open>until - offsetNext\<close>, and the times from the first up to the second are skipped.
\<close>

fun in_gap :: "(int \<times> int) list \<Rightarrow> int \<Rightarrow> int \<Rightarrow> bool" where
  "in_gap [] final target = False"
| "in_gap ((until, offset) # rest) final target =
     ((next_offset rest final < offset
         \<and> until - offset * 60000 \<le> target
         \<and> target < until - next_offset rest final * 60000)
      \<or> in_gap rest final target)"

definition zone_in_gap :: "zone \<Rightarrow> int \<Rightarrow> bool" where
  "zone_in_gap z target = in_gap (spans z) (lastOffset z) target"

text \<open>The spans of a zone table follow each other in time.\<close>

definition zone_ordered :: "zone \<Rightarrow> bool" where
  "zone_ordered z = sorted (map fst (spans z))"

subsection \<open>Moments\<close>

text \<open>
  A moment is an instant in milliseconds since the epoch, or invalid (\<open>None\<close>): the library
  never throws on input it cannot read, it returns an invalid moment whose getters are
  \<^verbatim>\<open>NaN\<close>.
\<close>

type_synonym moment = "int option"

definition day_ms :: int where "day_ms = 86400000"

text \<open>
  \<^verbatim>\<open>moment.tz(timezone).format("YYYY-MM-DD")\<close>: the calendar date, in the zone, of the
  present instant; for a name without data the moment stays in UTC. The date is kept as the
  number of days since the epoch instead of its text, which the code only passes on to the
  parser below.
\<close>

definition today_in :: "tzdata \<Rightarrow> string \<Rightarrow> int \<Rightarrow> int" where
  "today_in tzd timezone now =
     (case tzd timezone of
        None \<Rightarrow> now div day_ms
      | Some z \<Rightarrow> (now - zone_utcOffset z now * 60000) div day_ms)"

text \<open>
  The forgiving (non-strict) parser of the format \<^verbatim>\<open>HH:mm\<close>. A number token is the regular
  expression \<^verbatim>\<open>\d\d?\<close> searched in what is left of the input, a literal is searched
  likewise and consumed if found; a token that finds nothing leaves its field at 0. The moment
  is invalid when the hour is over 24, is 24 with a minute other than 0, or the minute is over
  59.
\<close>

definition is_digit :: "char \<Rightarrow> bool" where
  "is_digit c = (c \<in> set ''0123456789'')"

definition digit_val :: "char \<Rightarrow> nat" where
  "digit_val c = of_char c - 48"

fun match1to2 :: "string \<Rightarrow> (nat \<times> string) option" where
  "match1to2 [] = None"
| "match1to2 (c # cs) =
     (if is_digit c then
        (case cs of
           [] \<Rightarrow> Some (digit_val c, [])
         | d # ds \<Rightarrow> if is_digit d then Some (10 * digit_val c + digit_val d, ds)
                    else Some (digit_val c, cs))
      else match1to2 cs)"

definition match_literal :: "char \<Rightarrow> string \<Rightarrow> string" where
  "match_literal c s = (if c \<in> set s then tl (dropWhile (\<lambda>x. x \<noteq> c) s) else s)"

definition parse_HH_mm :: "string \<Rightarrow> (nat \<times> nat) option" where
  "parse_HH_mm s =
     (let (h, r1) = (case match1to2 s of None \<Rightarrow> (0, s) | Some (h, r) \<Rightarrow> (h, r));
          r2 = match_literal CHR '':'' r1;
          m = (case match1to2 r2 of None \<Rightarrow> 0 | Some (m, r) \<Rightarrow> m)
      in if h > 24 \<or> (h = 24 \<and> m \<noteq> 0) \<or> m > 59 then None else Some (h, m))"

text \<open>
  \<^verbatim>\<open>moment.tz(`${todayInUserTz} ${hours}:${minutes}`, "YYYY-MM-DD HH:mm", timezone)\<close>:
  the wall-clock time is read as if it were UTC, then shifted by the offset the zone resolves
  it with; for a name without data there is no shift.
\<close>

definition local_timestamp :: "int \<Rightarrow> nat \<Rightarrow> nat \<Rightarrow> int" where
  "local_timestamp day h m = day * day_ms + int h * 3600000 + int m * 60000"

definition moment_tz_parse :: "tzdata \<Rightarrow> int \<Rightarrow> string \<Rightarrow> string \<Rightarrow> moment" where
  "moment_tz_parse tzd day hhmm timezone =
     (case parse_HH_mm hhmm of
        None \<Rightarrow> None
      | Some (h, m) \<Rightarrow>
          (let target = local_timestamp day h m
           in case tzd timezone of
                None \<Rightarrow> Some target
              | Some z \<Rightarrow> Some (target + zone_parse z target * 60000)))"

text \<open>\<^verbatim>\<open>utcTime.minutes()\<close> and \<^verbatim>\<open>utcTime.hours()\<close>, \<open>None\<close> for \<^verbatim>\<open>NaN\<close>.\<close>

definition moment_minutes :: "moment \<Rightarrow> nat option" where
  "moment_minutes mo = map_option (\<lambda>t. nat ((t div 60000) mod 60)) mo"

definition moment_hours :: "moment \<Rightarrow> nat option" where
  "moment_hours mo = map_option (\<lambda>t. nat ((t div 3600000) mod 24)) mo"

subsection \<open>Strings\<close>

text \<open>\<^verbatim>\<open>s.split(c)\<close> for a one-character separator.\<close>

fun split_on :: "char \<Rightarrow> string \<Rightarrow> string list" where
  "split_on c [] = [[]]"
| "split_on c (x # xs) =
     (if x = c then [] # split_on c xs
      else (case split_on c xs of
              [] \<Rightarrow> [[x]]
            | w # ws \<Rightarrow> (x # w) # ws))"

text \<open>A number inside a template literal: decimal digits, or \<^verbatim>\<open>NaN\<close>.\<close>

definition digit_char :: "nat \<Rightarrow> char" where
  "digit_char n = ''0123456789'' ! (n mod 10)"

function show_nat :: "nat \<Rightarrow> string" where
  "show_nat n = (if n < 10 then [digit_char n] else show_nat (n div 10) @ [digit_char n])"
  by pat_completeness auto
termination
  by (relation "measure id") auto

declare show_nat.simps [simp del]

definition show_number :: "nat option \<Rightarrow> string" where
  "show_number v = (case v of None \<Rightarrow> ''NaN'' | Some n \<Rightarrow> show_nat n)"

subsection \<open>convertToCronTime\<close>

text \<open>
  The destructuring \<^verbatim>\<open>[hours, minutes] = timePreference.split(":")\<close> takes the first two
  pieces; a missing second piece is \<^verbatim>\<open>undefined\<close> and prints as such in the template. The
  clock reading \<open>now\<close> is a parameter. \<open>convertToCronTime_moment\<close> is the value of
  \<^verbatim>\<open>utcTime\<close>; the function returns the cron expression built from it. There is no
  \<^verbatim>\<open>throw\<close> in the function and no call in it throws on a string.
\<close>

definition convertToCronTime_moment :: "tzdata \<Rightarrow> int \<Rightarrow> string \<Rightarrow> string \<Rightarrow> moment" where
  "convertToCronTime_moment tzd now timePreference timezone =
     (let parts = split_on CHR '':'' timePreference;
          hours = (case parts of [] \<Rightarrow> ''undefined'' | h # _ \<Rightarrow> h);
          minutes = (case parts of _ # m # _ \<Rightarrow> m | _ \<Rightarrow> ''undefined'');
          todayInUserTz = today_in tzd timezone now;
          userTime = moment_tz_parse tzd todayInUserTz (hours @ '':'' @ minutes) timezone
      in userTime)"

definition convertToCronTime :: "tzdata \<Rightarrow> int \<Rightarrow> string \<Rightarrow> string \<Rightarrow> string" where
  "convertToCronTime tzd now timePreference timezone =
     (let utcTime = convertToCronTime_moment tzd now timePreference timezone
      in show_number (moment_minutes utcTime) @ '' '' @ show_number (moment_hours utcTime)
           @ '' * * *'')"

text \<open>
  Converting an instant back to the wall clock of a zone: the calendar day, the hour and the
  minute that the zone's clocks show at that instant.
\<close>

definition wall_clock :: "zone \<Rightarrow> int \<Rightarrow> int \<times> nat \<times> nat" where
  "wall_clock z t =
     (let l = t - zone_utcOffset z t * 60000
      in (l div day_ms, nat ((l div 3600000) mod 24), nat ((l div 60000) mod 60)))"

text \<open>A local time written \<^verbatim>\<open>HH:MM\<close> with two digits each.\<close>

definition two_digits :: "nat \<Rightarrow> string" where
  "two_digits n = [digit_char (n div 10), digit_char n]"

definition hhmm :: "nat \<Rightarrow> nat \<Rightarrow> string" where
  "hhmm h m = two_digits h @ '':'' @ two_digits m"

text \<open>
  New York around 2025 as the zone table has it: daylight time (240) until 3 November 2024
  06:00 UTC, standard time (300) until 9 March 2025 07:00 UTC, daylight time until 2 November
  2025 06:00 UTC, standard time after.
\<close>

definition new_york :: zone where
  "new_york = \<lparr> spans = [(1730613600000, 240), (1741503600000, 300), (1762063200000, 240)],
                 lastOffset = 300 \<rparr>"

definition tz_new_york :: tzdata where
  "tz_new_york name = (if name = ''America/New_York'' then Some new_york else None)"

text \<open>The zone of UTC itself: one span without end, offset 0.\<close>

definition utc_zone :: zone where
  "utc_zone = \<lparr> spans = [], lastOffset = 0 \<rparr>"

section \<open>The registry and the delivery history (handlers/supabase-helper.js)\<close>

record user =
  user_id :: "string option"
  timezone :: "string option"
  user_email :: "string option"
  delivery_time :: "string option"
  slack_user_id :: "string option"

text \<open>
  What the query on \<^verbatim>\<open>user_preferences\<close> gives \<^verbatim>\<open>getActiveUsers\<close>: the awaited
  call rejects, or it yields the pair \<^verbatim>\<open>{ data, error }\<close>.
\<close>

datatype fetch = FetchThrows string | FetchResult "user list option" "string option"

datatype js_error = JsError string

definition getActiveUsers :: "fetch \<Rightarrow> js_error + user list" where
  "getActiveUsers response =
     (case response of
        FetchThrows msg \<Rightarrow> Inl (JsError msg)
      | FetchResult data error \<Rightarrow>
          if error \<noteq> None then Inr []
          else (case data of
                  None \<Rightarrow> Inr []
                | Some rows \<Rightarrow>
                    if length rows = 0 then Inr []
                    else Inr (filter (\<lambda>user. truthy (slack_user_id user)) rows)))"

text \<open>
  A row of \<^verbatim>\<open>brief_usage\<close>, the delivery history. \<^verbatim>\<open>last_used\<close> is an instant in
  milliseconds since the epoch.
\<close>

record usage_row =
  row_user_id :: "string option"
  last_used :: int
  status :: string
  error_message :: "string option"

text \<open>
  The filters \<^verbatim>\<open>.eq("user_id", userId).gte("last_used", since)\<close>; a \<^verbatim>\<open>null\<close> is equal
  to nothing in the database.
\<close>

definition rows_since :: "usage_row list \<Rightarrow> string option \<Rightarrow> int \<Rightarrow> usage_row list" where
  "rows_since table userId since =
     filter (\<lambda>r. userId \<noteq> None \<and> row_user_id r = userId \<and> last_used r \<ge> since) table"

text \<open>
  The row modifiers of the database client. \<^verbatim>\<open>.single()\<close> asks for exactly one row: with
  no row or with several the client yields an error and \<^verbatim>\<open>data = null\<close>.
  \<^verbatim>\<open>.maybeSingle()\<close> yields \<^verbatim>\<open>null\<close> without an error for no row.
\<close>

definition single :: "'a list \<Rightarrow> 'a option" where
  "single rows = (case rows of [r] \<Rightarrow> Some r | _ \<Rightarrow> None)"

definition maybeSingle :: "'a list \<Rightarrow> 'a option" where
  "maybeSingle rows = (case rows of [r] \<Rightarrow> Some r | _ \<Rightarrow> None)"

definition limit :: "nat \<Rightarrow> 'a list \<Rightarrow> 'a list" where
  "limit n rows = take n rows"

text \<open>\<^verbatim>\<open>moment().utc().startOf("day")\<close> for a clock reading \<open>now\<close>.\<close>

definition startOfDay :: "int \<Rightarrow> int" where
  "startOfDay now = now - now mod day_ms"

definition checkIfAlreadySent :: "usage_row list \<Rightarrow> int \<Rightarrow> string option \<Rightarrow> bool" where
  "checkIfAlreadySent table now userId =
     (let today = startOfDay now;
          data = single (rows_since table userId today)
      in data \<noteq> None)"

definition checkIfSentRecently :: "usage_row list \<Rightarrow> int \<Rightarrow> string option \<Rightarrow> int \<Rightarrow> bool" where
  "checkIfSentRecently table now userId windowSeconds =
     (let since = now - windowSeconds * 1000;
          data = maybeSingle (limit 1 (rows_since table userId since))
      in data \<noteq> None)"

definition logBriefSent ::
  "usage_row list \<Rightarrow> int \<Rightarrow> string option \<Rightarrow> string \<Rightarrow> string option \<Rightarrow> usage_row list"
where
  "logBriefSent table now userId st errorMessage =
     table @ [\<lparr> row_user_id = userId, last_used = now, status = st,
                error_message = (if truthy errorMessage then errorMessage else None) \<rparr>]"

section \<open>The firing callback (scheduler.js, createUserCronJob)\<close>

text \<open>
  The world a firing acts on: the delivery history, and the calls made so far to
  \<^verbatim>\<open>sendBriefViaWebhook(slack_user_id, user_email)\<close>, which generates the brief and posts
  it. That function catches every error and returns a boolean, the parameter \<open>sent\<close> below;
  the database helpers return their errors as values. So no awaited call of the callback
  rejects, and its \<^verbatim>\<open>catch\<close> branch is not entered. The three clock readings of a firing
  (in the daily check, in the cooldown check, when the record is written) are parameters.
\<close>

record world =
  brief_usage :: "usage_row list"
  deliveries :: "(string option \<times> string option) list"

definition fire :: "user \<Rightarrow> int \<Rightarrow> int \<Rightarrow> int \<Rightarrow> bool \<Rightarrow> world \<Rightarrow> world" where
  "fire u t_daily t_cooldown t_log sent w =
     (let alreadySent = checkIfAlreadySent (brief_usage w) t_daily (user_id u);
          sentRecently = checkIfSentRecently (brief_usage w) t_cooldown (user_id u) 3000
      in if \<not> alreadySent \<and> \<not> sentRecently then
           if \<not> truthy (slack_user_id u) then
             w\<lparr> brief_usage := logBriefSent (brief_usage w) t_log (user_id u) ''skipped''
                    (Some ''No slack_user_id configured'') \<rparr>
           else
             (let w1 = w\<lparr> deliveries := deliveries w @ [(slack_user_id u, user_email u)] \<rparr>;
                  success = sent
              in w1\<lparr> brief_usage := logBriefSent (brief_usage w1) t_log (user_id u)
                        (if success then ''success'' else ''failed'')
                        (if success then None else Some ''Failed to send via webhook'') \<rparr>)
         else w)"

section \<open>The schedule synchronizer (scheduler.js, syncAllSchedules)\<close>

subsection \<open>The cron library\<close>

text \<open>
  \<^verbatim>\<open>cron.schedule(expression, callback, { scheduled: false, timezone: "UTC" })\<close> checks the
  expression and throws on one it does not accept, otherwise it returns a task that is not
  running yet. The check is modelled for the expressions the converter can build: five fields
  separated by a blank, each \<^verbatim>\<open>*\<close> or a number within the range of the field.
\<close>

definition field_ok :: "nat \<Rightarrow> nat \<Rightarrow> string \<Rightarrow> bool" where
  "field_ok lo hi f =
     (f = ''*'' \<or>
      (f \<noteq> [] \<and> list_all is_digit f
        \<and> lo \<le> foldl (\<lambda>acc c. 10 * acc + digit_val c) 0 f
        \<and> foldl (\<lambda>acc c. 10 * acc + digit_val c) 0 f \<le> hi))"

definition validate_expression :: "string \<Rightarrow> bool" where
  "validate_expression expression =
     (case split_on CHR '' '' expression of
        [minute, hour, dayOfMonth, month, dayOfWeek] \<Rightarrow>
          field_ok 0 59 minute \<and> field_ok 0 23 hour \<and> field_ok 1 31 dayOfMonth
            \<and> field_ok 1 12 month \<and> field_ok 0 7 dayOfWeek
      | _ \<Rightarrow> False)"

record task =
  task_user :: user
  task_expression :: string
  running :: bool

text \<open>
  The error the library throws names the first field it does not accept. An expression
  without five fields is not built by the converter; its message is not modelled further.
\<close>

definition invalid_message :: "string \<Rightarrow> string" where
  "invalid_message expression =
     (case split_on CHR '' '' expression of
        [minute, hour, dayOfMonth, month, dayOfWeek] \<Rightarrow>
          if \<not> field_ok 0 59 minute then minute @ '' is a invalid expression for minute''
          else if \<not> field_ok 0 23 hour then hour @ '' is a invalid expression for hour''
          else if \<not> field_ok 1 31 dayOfMonth
            then dayOfMonth @ '' is a invalid expression for day of month''
          else if \<not> field_ok 1 12 month then month @ '' is a invalid expression for month''
          else dayOfWeek @ '' is a invalid expression for day of week''
      | _ \<Rightarrow> expression @ '' is a invalid expression'')"

definition cron_schedule :: "string \<Rightarrow> user \<Rightarrow> js_error + task" where
  "cron_schedule expression u =
     (if validate_expression expression
      then Inr \<lparr> task_user = u, task_expression = expression, running = False \<rparr>
      else Inl (JsError (invalid_message expression)))"

subsection \<open>The scheduler's state\<close>

text \<open>
  Tasks are objects shared between the cron library, which fires the running ones, and the
  map \<^verbatim>\<open>activeTasks\<close>, which holds references to them. \<open>tasks\<close> is the store of every
  task created so far, a reference is an index into it. \<^verbatim>\<open>activeTasks\<close> is a map from
  user id to reference that keeps the order of insertion. \<^verbatim>\<open>syncInProgress\<close> is the
  module's other variable.
\<close>

record scheduler =
  tasks :: "task list"
  activeTasks :: "(string \<times> nat) list"
  syncInProgress :: bool

definition map_set :: "'k \<Rightarrow> 'v \<Rightarrow> ('k \<times> 'v) list \<Rightarrow> ('k \<times> 'v) list" where
  "map_set k v m =
     (if k \<in> fst ` set m then map (\<lambda>(k', v'). if k' = k then (k', v) else (k', v')) m
      else m @ [(k, v)])"

definition task_stop :: "nat \<Rightarrow> task list \<Rightarrow> task list" where
  "task_stop r ts = (if r < length ts then ts[r := (ts ! r)\<lparr> running := False \<rparr>] else ts)"

text \<open>
  \<^verbatim>\<open>createUserCronJob(user)\<close>. A \<^verbatim>\<open>delivery_time\<close> that is \<^verbatim>\<open>null\<close> makes
  \<^verbatim>\<open>timePreference.split\<close> a TypeError. A \<^verbatim>\<open>timezone\<close> that is \<^verbatim>\<open>null\<close>
  is passed on to the time zone library, which then leaves the moment in UTC as it does for a
  name without data. The synchronizer calls the function only for a user whose
  \<^verbatim>\<open>delivery_time\<close> and \<^verbatim>\<open>timezone\<close> are truthy.
\<close>

definition createUserCronJob :: "tzdata \<Rightarrow> int \<Rightarrow> user \<Rightarrow> js_error + task" where
  "createUserCronJob tzd now u =
     (case delivery_time u of
        None \<Rightarrow> Inl (JsError ''TypeError'')
      | Some timePreference \<Rightarrow>
          (let cronExpression =
                 (case timezone u of
                    Some tz \<Rightarrow> convertToCronTime tzd now timePreference tz
                  | None \<Rightarrow> convertToCronTime (\<lambda>name. None) now timePreference [])
           in cron_schedule cronExpression u))"

text \<open>
  A sync cycle runs in two uninterrupted stretches, separated by
  \<^verbatim>\<open>await getActiveUsers()\<close>. The first stops every active task and clears the map.
\<close>

definition sync_begin :: "scheduler \<Rightarrow> scheduler" where
  "sync_begin s =
     s\<lparr> tasks := foldl (\<lambda>ts (userId, r). task_stop r ts) (tasks s) (activeTasks s),
        activeTasks := [] \<rparr>"

text \<open>The body of the loop over the users, with its \<^verbatim>\<open>continue\<close> and its \<^verbatim>\<open>catch\<close>.\<close>

definition sync_user :: "tzdata \<Rightarrow> int \<Rightarrow> scheduler \<Rightarrow> user \<Rightarrow> scheduler" where
  "sync_user tzd now s u =
     (if \<not> truthy (user_id u) \<or> \<not> truthy (delivery_time u) \<or> \<not> truthy (timezone u) then s
      else
        (case createUserCronJob tzd now u of
           Inl error \<Rightarrow> s
         | Inr t \<Rightarrow>
             s\<lparr> tasks := tasks s @ [t\<lparr> running := True \<rparr>],
                activeTasks := map_set (the (user_id u)) (length (tasks s)) (activeTasks s) \<rparr>))"

text \<open>
  The second stretch, entered with what \<^verbatim>\<open>getActiveUsers\<close> gave: a rejection goes to the
  outer \<^verbatim>\<open>catch\<close>, which only logs.
\<close>

definition sync_finish :: "tzdata \<Rightarrow> int \<Rightarrow> js_error + user list \<Rightarrow> scheduler \<Rightarrow> scheduler" where
  "sync_finish tzd now fetched s =
     (case fetched of
        Inl error \<Rightarrow> s
      | Inr users \<Rightarrow> foldl (sync_user tzd now) s users)"

definition syncAllSchedules :: "tzdata \<Rightarrow> int \<Rightarrow> fetch \<Rightarrow> scheduler \<Rightarrow> scheduler" where
  "syncAllSchedules tzd now response s =
     sync_finish tzd now (getActiveUsers response) (sync_begin s)"

text \<open>The user ids of the active triggers, and the tasks the cron library will fire.\<close>

definition active_ids :: "scheduler \<Rightarrow> string set" where
  "active_ids s = fst ` set (activeTasks s)"

definition running_for :: "scheduler \<Rightarrow> string option \<Rightarrow> task list" where
  "running_for s userId = filter (\<lambda>t. running t \<and> user_id (task_user t) = userId) (tasks s)"

subsection \<open>Sync requests that overlap\<close>

text \<open>
  The hourly timer, the change notification and the manual endpoint each call
  \<^verbatim>\<open>syncAllSchedules()\<close>. A request that arrives while a cycle waits for the registry
  starts its own first stretch at once: nothing in the function reads or writes
  \<^verbatim>\<open>syncInProgress\<close>. \<open>waiting\<close> lists the cycles that have started and not finished.
\<close>

datatype sync_event = SyncRequest nat | FetchDone nat fetch

record sync_system =
  sched :: scheduler
  waiting :: "nat list"

definition sync_step :: "tzdata \<Rightarrow> int \<Rightarrow> sync_system \<Rightarrow> sync_event \<Rightarrow> sync_system" where
  "sync_step tzd now sys ev =
     (case ev of
        SyncRequest i \<Rightarrow> \<lparr> sched = sync_begin (sched sys), waiting = waiting sys @ [i] \<rparr>
      | FetchDone i response \<Rightarrow>
          if i \<in> set (waiting sys)
          then \<lparr> sched = sync_finish tzd now (getActiveUsers response) (sched sys),
                 waiting = removeAll i (waiting sys) \<rparr>
          else sys)"

definition sync_run :: "tzdata \<Rightarrow> int \<Rightarrow> sync_system \<Rightarrow> sync_event list \<Rightarrow> sync_system" where
  "sync_run tzd now sys evs = foldl (sync_step tzd now) sys evs"

subsection \<open>Entries that get a trigger\<close>

text \<open>
  What the time parser reads from a delivery time, through the pieces the converter hands it;
  \<open>None\<close> when the moment is invalid.
\<close>

definition time_of_day :: "string \<Rightarrow> (nat \<times> nat) option" where
  "time_of_day timePreference =
     (let parts = split_on CHR '':'' timePreference;
          hours = (case parts of [] \<Rightarrow> ''undefined'' | h # _ \<Rightarrow> h);
          minutes = (case parts of _ # m # _ \<Rightarrow> m | _ \<Rightarrow> ''undefined'')
      in parse_HH_mm (hours @ '':'' @ minutes))"

text \<open>
  A registry entry with all the required fields and a recipient, as the code tests them (a
  field that is \<^verbatim>\<open>null\<close> or empty is missing), and one whose delivery time is readable
  as well.
\<close>

definition has_required_fields :: "user \<Rightarrow> bool" where
  "has_required_fields u =
     (truthy (user_id u) \<and> truthy (delivery_time u) \<and> truthy (timezone u)
        \<and> truthy (slack_user_id u))"

definition schedulable :: "user \<Rightarrow> bool" where
  "schedulable u = (has_required_fields u \<and> time_of_day (the (delivery_time u)) \<noteq> None)"

section \<open>The generation coordinator (services/daily-brief-generator.js, generateDailyBrief)\<close>

text \<open>
  \<^verbatim>\<open>generateDailyBrief\<close> is an async function: it runs without interruption from one
  \<^verbatim>\<open>await\<close> to the next, and other calls run in between. The model cuts a call at its
  awaits. The generator object holds \<^verbatim>\<open>briefCache\<close> (key to brief and timestamp) and
  \<^verbatim>\<open>inFlight\<close> (key to promise). \<open>promises\<close> is the store of the promises returned by
  \<^verbatim>\<open>generateBriefContent\<close>, one for each invocation of the generation pipeline, in the
  order of invocation; \<open>invocations\<close> records the key of each invocation.
\<close>

datatype promise = Pending | Fulfilled string | Rejected string

record generator =
  briefCache :: "string \<rightharpoonup> (string \<times> int)"
  inFlight :: "string \<rightharpoonup> nat"
  promises :: "promise list"
  invocations :: "string list"

definition CACHE_DURATION :: int where "CACHE_DURATION = 30000"

definition cacheKey :: "string \<Rightarrow> string option \<Rightarrow> string" where
  "cacheKey userEmail userId =
     userEmail @ '':'' @ (if truthy userId then the userId else ''unknown'')"

text \<open>
  Where a call stands: waiting for the promise found in \<^verbatim>\<open>inFlight\<close>, waiting for
  \<^verbatim>\<open>getUserPreferences\<close>, waiting for its own generation promise (with the timestamp it
  will cache), or returned: the brief, or the apology text of the \<^verbatim>\<open>catch\<close> branch.
\<close>

datatype call_state =
    AwaitInFlight nat
  | AwaitPreferences
  | AwaitGeneration nat int
  | ReturnedBrief string
  | ReturnedApology string

text \<open>From the entry to the first await or return: the cache test, then the in-flight test.\<close>

definition check_inFlight :: "string \<Rightarrow> generator \<Rightarrow> call_state \<times> generator" where
  "check_inFlight key g =
     (case inFlight g key of
        Some p \<Rightarrow> (AwaitInFlight p, g)
      | None \<Rightarrow> (AwaitPreferences, g))"

definition gen_enter :: "string \<Rightarrow> int \<Rightarrow> generator \<Rightarrow> call_state \<times> generator" where
  "gen_enter key now g =
     (case briefCache g key of
        Some (brief, timestamp) \<Rightarrow>
          if now - timestamp < CACHE_DURATION then (ReturnedBrief brief, g)
          else check_inFlight key (g\<lparr> briefCache := (briefCache g)(key := None) \<rparr>)
      | None \<Rightarrow> check_inFlight key g)"

text \<open>\<^verbatim>\<open>cleanupCache()\<close>: every entry older than the cache duration is deleted.\<close>

definition cleanupCache :: "int \<Rightarrow> generator \<Rightarrow> generator" where
  "cleanupCache now g =
     g\<lparr> briefCache := (\<lambda>k. case briefCache g k of
                               None \<Rightarrow> None
                             | Some (brief, timestamp) \<Rightarrow>
                                 if now - timestamp > CACHE_DURATION then None
                                 else Some (brief, timestamp)) \<rparr>"

text \<open>
  The call goes on when what it awaits is settled. After the preferences it invokes
  \<^verbatim>\<open>generateBriefContent\<close>, and only then stores the promise in \<^verbatim>\<open>inFlight\<close>. After
  its generation it caches, cleans up and, in \<^verbatim>\<open>finally\<close>, deletes the key from
  \<^verbatim>\<open>inFlight\<close>. A call that awaited another call's promise returns its value, or goes
  on to the preferences if it was rejected. \<open>now\<close> is the clock reading of the stretch.
\<close>

definition gen_resume :: "string \<Rightarrow> int \<Rightarrow> call_state \<Rightarrow> generator \<Rightarrow> call_state \<times> generator" where
  "gen_resume key now c g =
     (case c of
        AwaitInFlight p \<Rightarrow>
          (if p < length (promises g) then
             (case promises g ! p of
                Pending \<Rightarrow> (c, g)
              | Fulfilled brief \<Rightarrow> (ReturnedBrief brief, g)
              | Rejected e \<Rightarrow> (AwaitPreferences, g))
           else (c, g))
      | AwaitPreferences \<Rightarrow>
          (let p = length (promises g)
           in (AwaitGeneration p now,
               g\<lparr> promises := promises g @ [Pending],
                  invocations := invocations g @ [key],
                  inFlight := (inFlight g)(key \<mapsto> p) \<rparr>))
      | AwaitGeneration p timestamp \<Rightarrow>
          (if p < length (promises g) then
             (case promises g ! p of
                Pending \<Rightarrow> (c, g)
              | Fulfilled dailyBrief \<Rightarrow>
                  (let g1 = g\<lparr> briefCache := (briefCache g)(key \<mapsto> (dailyBrief, timestamp)) \<rparr>;
                       g2 = cleanupCache now g1
                   in (ReturnedBrief dailyBrief, g2\<lparr> inFlight := (inFlight g2)(key := None) \<rparr>))
              | Rejected e \<Rightarrow> (ReturnedApology e, g\<lparr> inFlight := (inFlight g)(key := None) \<rparr>))
           else (c, g))
      | ReturnedBrief b \<Rightarrow> (c, g)
      | ReturnedApology e \<Rightarrow> (c, g))"

text \<open>The generation pipeline settles one of its promises.\<close>

definition settle :: "nat \<Rightarrow> promise \<Rightarrow> generator \<Rightarrow> generator" where
  "settle p outcome g =
     (if p < length (promises g) \<and> promises g ! p = Pending
      then g\<lparr> promises := (promises g)[p := outcome] \<rparr> else g)"

text \<open>
  Several calls for one key. An event enters a new call, lets a call go on, or settles a
  promise; \<open>calls\<close> holds where each call stands, in the order they entered.
\<close>

datatype gen_event = Enter int | Resume nat int | Settle nat promise

record coordinator =
  gen :: generator
  calls :: "call_state list"

definition gen_step :: "string \<Rightarrow> coordinator \<Rightarrow> gen_event \<Rightarrow> coordinator" where
  "gen_step key co ev =
     (case ev of
        Enter now \<Rightarrow>
          (let (c, g) = gen_enter key now (gen co) in \<lparr> gen = g, calls = calls co @ [c] \<rparr>)
      | Resume i now \<Rightarrow>
          (if i < length (calls co) then
             (let (c, g) = gen_resume key now (calls co ! i) (gen co)
              in \<lparr> gen = g, calls = (calls co)[i := c] \<rparr>)
           else co)
      | Settle p outcome \<Rightarrow> co\<lparr> gen := settle p outcome (gen co) \<rparr>)"

definition gen_run :: "string \<Rightarrow> coordinator \<Rightarrow> gen_event list \<Rightarrow> coordinator" where
  "gen_run key co evs = foldl (gen_step key) co evs"

definition fresh_generator :: generator where
  "fresh_generator = \<lparr> briefCache = Map.empty, inFlight = Map.empty, promises = [],
                        invocations = [] \<rparr>"

section \<open>Concrete inputs\<close>

text \<open>
  The inputs at which the properties below are evaluated. Instants are milliseconds since the
  epoch: 1735689600000 is 1 January 2025 00:00 UTC.
\<close>

definition history_two_records :: "usage_row list" where
  "history_two_records =
     [\<lparr> row_user_id = Some ''u1'', last_used = 1735693200000, status = ''failed'',
        error_message = Some ''Failed to send via webhook'' \<rparr>,
      \<lparr> row_user_id = Some ''u1'', last_used = 1735696800000, status = ''success'',
        error_message = None \<rparr>]"

definition user_u1 :: user where
  "user_u1 = \<lparr> user_id = Some ''u1'', timezone = Some ''America/New_York'',
               user_email = Some ''u1@example.com'', delivery_time = Some ''08:00'',
               slack_user_id = Some ''S1'' \<rparr>"

definition history_one_success :: "usage_row list" where
  "history_one_success =
     [\<lparr> row_user_id = Some ''u1'', last_used = 1735696800000, status = ''success'',
        error_message = None \<rparr>]"

definition user_bad_time :: user where
  "user_bad_time = \<lparr> user_id = Some ''u2'', timezone = Some ''America/New_York'',
                     user_email = Some ''u2@example.com'', delivery_time = Some ''25:99'',
                     slack_user_id = Some ''S2'' \<rparr>"

definition user_unknown_zone :: user where
  "user_unknown_zone = \<lparr> user_id = Some ''u3'', timezone = Some ''Mars/Phobos'',
                         user_email = Some ''u3@example.com'', delivery_time = Some ''08:00'',
                         slack_user_id = Some ''S3'' \<rparr>"

definition empty_scheduler :: scheduler where
  "empty_scheduler = \<lparr> tasks = [], activeTasks = [], syncInProgress = False \<rparr>"

text \<open>A scheduler with one running trigger, for \<open>u1\<close> at 13:00 UTC.\<close>

definition scheduler_with_u1 :: scheduler where
  "scheduler_with_u1 =
     \<lparr> tasks = [\<lparr> task_user = user_u1, task_expression = ''0 13 * * *'', running = True \<rparr>],
       activeTasks = [(''u1'', 0)], syncInProgress = False \<rparr>"

text \<open>12:00 UTC on 1 January, on 9 March and on 1 July 2025.\<close>

definition noon_1_jan :: int where "noon_1_jan = 1735732800000"

definition noon_9_mar :: int where "noon_9_mar = 1741521600000"

definition noon_1_jul :: int where "noon_1_jul = 1751371200000"

text \<open>
  A history with rows of two users and of two days: \<open>u1\<close> on 31 December 2024 at 22:00 UTC,
  \<open>u2\<close> on 1 January 2025 at 01:00 UTC, \<open>u1\<close> on 1 January 2025 at 02:00 UTC.
\<close>

definition history_mixed :: "usage_row list" where
  "history_mixed =
     [\<lparr> row_user_id = Some ''u1'', last_used = 1735682400000, status = ''success'',
        error_message = None \<rparr>,
      \<lparr> row_user_id = Some ''u2'', last_used = 1735693200000, status = ''success'',
        error_message = None \<rparr>,
      \<lparr> row_user_id = Some ''u1'', last_used = 1735696800000, status = ''success'',
        error_message = None \<rparr>]"

text \<open>12:00 UTC on 2 November 2025, the day the clocks of New York fall back.\<close>

definition noon_2_nov :: int where "noon_2_nov = 1762084800000"

section \<open>Properties of the retry helper\<close>

lemma backoff_schedule_from_step:
  "a < n \<Longrightarrow> backoff_schedule_from base a n =
     Attempt a # Delay (base * 2 ^ (a - 1)) # backoff_schedule_from base (Suc a) n"
proof -
  assume "a < n"
  then have "[Suc a ..< Suc n] = Suc a # [Suc (Suc a) ..< Suc n]"
    by (simp add: upt_conv_Cons del: upt_Suc)
  then show ?thesis
    by (simp add: backoff_schedule_from_def del: upt_Suc)
qed

lemma backoff_schedule_from_last: "backoff_schedule_from base n n = [Attempt n]"
  by (simp add: backoff_schedule_from_def)

lemma retry_loop_schedule:
  "1 \<le> a \<Longrightarrow> a \<le> m \<Longrightarrow>
   \<exists>n. a \<le> n \<and> n \<le> m
     \<and> fst (retry_loop operation t m base a) = backoff_schedule_from base a n
     \<and> (\<forall>k. a \<le> k \<and> k < n \<longrightarrow> isl (operation k))
     \<and> (case operation n of
          Inr r \<Rightarrow> snd (retry_loop operation t m base a) = Returned r
        | Inl e \<Rightarrow> n = m
            \<and> snd (retry_loop operation t m base a) = (if t then Threw e else ReturnedEmpty))"
proof (induction operation t m base a rule: retry_loop.induct)
  case (1 operation t m base a)
  show ?case
  proof (cases "operation a")
    case (Inr r)
    with "1.prems" show ?thesis
      by (intro exI[of _ a]) (auto simp add: backoff_schedule_from_last retry_loop.simps[of _ _ _ _ a])
  next
    case (Inl e)
    show ?thesis
    proof (cases "a = m")
      case True
      with Inl "1.prems" show ?thesis
        by (intro exI[of _ a]) (auto simp add: backoff_schedule_from_last retry_loop.simps[of _ _ _ _ m])
    next
      case False
      with "1.prems" have lt: "a < m" by simp
      from "1.IH"[OF _ Inl False refl] "1.prems" lt
      obtain n where n: "Suc a \<le> n" "n \<le> m"
        and tr: "fst (retry_loop operation t m base (a + 1)) = backoff_schedule_from base (Suc a) n"
        and fl: "\<forall>k. Suc a \<le> k \<and> k < n \<longrightarrow> isl (operation k)"
        and rs: "(case operation n of
                    Inr r \<Rightarrow> snd (retry_loop operation t m base (a + 1)) = Returned r
                  | Inl e \<Rightarrow> n = m \<and> snd (retry_loop operation t m base (a + 1))
                      = (if t then Threw e else ReturnedEmpty))"
        by auto
      have unf: "retry_loop operation t m base a =
          (Attempt a # Delay (base * 2 ^ (a - 1)) # fst (retry_loop operation t m base (a + 1)),
           snd (retry_loop operation t m base (a + 1)))"
        using Inl False lt
        by (subst retry_loop.simps) (simp add: case_prod_beta Let_def)
      have all: "\<forall>k. a \<le> k \<and> k < n \<longrightarrow> isl (operation k)"
      proof (intro allI impI)
        fix k assume k: "a \<le> k \<and> k < n"
        show "isl (operation k)"
        proof (cases "k = a")
          case True then show ?thesis using Inl by simp
        next
          case False then show ?thesis using k fl by simp
        qed
      qed
      from n have an: "a < n" by simp
      have f: "fst (retry_loop operation t m base a) = backoff_schedule_from base a n"
        using tr by (simp add: unf backoff_schedule_from_step[OF an])
      have s: "snd (retry_loop operation t m base a) = snd (retry_loop operation t m base (a + 1))"
        by (simp add: unf)
      show ?thesis
      proof (intro exI[of _ n] conjI)
        show "a \<le> n" using an by simp
        show "n \<le> m" by (rule n(2))
        show "fst (retry_loop operation t m base a) = backoff_schedule_from base a n" by (rule f)
        show "\<forall>k. a \<le> k \<and> k < n \<longrightarrow> isl (operation k)" by (rule all)
        show "case operation n of
                Inl e \<Rightarrow> n = m \<and> snd (retry_loop operation t m base a)
                    = (if t then Threw e else ReturnedEmpty)
              | Inr r \<Rightarrow> snd (retry_loop operation t m base a) = Returned r"
          using rs by (simp only: s)
      qed
    qed
  qed
qed

text \<open>
  Claim C8, as the code has it. With a maximum of at least one attempt, the helper makes
  attempts \<open>1, ..., n\<close> for some \<open>n\<close> up to the maximum and none beyond: attempt 1 comes
  first with nothing before it, every later attempt \<open>k\<close> is preceded by a sleep of exactly
  \<open>base * 2 ^ (k - 2)\<close> (the power \<open>2 ^ (j - 1)\<close> belongs to the attempt \<open>j = k - 1\<close> that
  just failed), all attempts before the last one made have failed, and the helper ends with the
  result of attempt \<open>n\<close> if it succeeded; otherwise \<open>n\<close> is the maximum and the helper
  rethrows the error or returns the empty result, as \<open>throwOnFailure\<close> says.
\<close>

theorem retryOperation_backoff:
  "0 < maxRetries \<Longrightarrow>
   \<exists>n. 1 \<le> n \<and> n \<le> maxRetries
     \<and> fst (retryOperation operation throwOnFailure maxRetries baseDelay)
         = backoff_schedule baseDelay n
     \<and> (\<forall>k. 1 \<le> k \<and> k < n \<longrightarrow> isl (operation k))
     \<and> (case operation n of
          Inr r \<Rightarrow> snd (retryOperation operation throwOnFailure maxRetries baseDelay) = Returned r
        | Inl e \<Rightarrow> n = maxRetries
            \<and> snd (retryOperation operation throwOnFailure maxRetries baseDelay)
                = (if throwOnFailure then Threw e else ReturnedEmpty))"
  unfolding retryOperation_def backoff_schedule_def
  using retry_loop_schedule[of 1 maxRetries operation throwOnFailure baseDelay] by simp

lemma retry_always_failing:
  "retryOperation (\<lambda>k. Inl ''down'' :: string + nat) True 3 1000
     = ([Attempt 1, Delay 1000, Attempt 2, Delay 2000, Attempt 3], Threw ''down'')"
  by code_simp

theorem retryOperation_backoff_witness:
  "(0::nat) < 3 \<and>
   (\<exists>n. 1 \<le> n \<and> n \<le> 3
     \<and> fst (retryOperation (\<lambda>k. Inl ''down'' :: string + nat) False 3 1000)
         = backoff_schedule 1000 n
     \<and> (\<forall>k. 1 \<le> k \<and> k < n \<longrightarrow> isl ((\<lambda>k. Inl ''down'' :: string + nat) k))
     \<and> (case (\<lambda>k. Inl ''down'' :: string + nat) n of
          Inr r \<Rightarrow> snd (retryOperation (\<lambda>k. Inl ''down'' :: string + nat) False 3 1000) = Returned r
        | Inl e \<Rightarrow> n = 3
            \<and> snd (retryOperation (\<lambda>k. Inl ''down'' :: string + nat) False 3 1000)
                = (if False then Threw e else ReturnedEmpty)))"
proof -
  have h: "(0::nat) < 3" by simp
  show ?thesis
    using h retryOperation_backoff[OF h, of "\<lambda>k. Inl ''down'' :: string + nat" False 1000]
    by blast
qed

text \<open>
  Claim C8 as worded fails: with a base of 1000 ms and an upstream call that is always down,
  the second attempt comes after a sleep of 1000 ms and the third after 2000 ms, not after
  \<open>1000 * 2 ^ (2 - 1) = 2000\<close> and \<open>1000 * 2 ^ (3 - 1) = 4000\<close>.
\<close>

theorem retryOperation_backoff_counterexample:
  "fst (retryOperation (\<lambda>k. Inl ''down'' :: string + nat) True 3 1000)
     = [Attempt 1, Delay 1000, Attempt 2, Delay 2000, Attempt 3]
   \<and> spec_backoff_schedule 1000 3 = [Attempt 1, Delay 2000, Attempt 2, Delay 4000, Attempt 3]
   \<and> fst (retryOperation (\<lambda>k. Inl ''down'' :: string + nat) True 3 1000)
     \<noteq> spec_backoff_schedule 1000 3"
  by (simp add: retry_always_failing spec_backoff_schedule_def upt_conv_Cons del: upt_Suc)


section \<open>Properties of the dedup guard and the firing callback\<close>

lemma single_iff: "single rows \<noteq> None \<longleftrightarrow> length rows = 1"
  by (cases rows rule: list.exhaust; simp add: single_def split: list.splits)

lemma start_of_day_le:
  "(now - now mod 86400000 \<le> (x::int)) \<longleftrightarrow> (now div 86400000 \<le> x div 86400000)"
proof -
  have eq: "now - now mod 86400000 = (now div 86400000) * 86400000"
    by (simp add: minus_mod_eq_div_mult)
  show ?thesis
  proof
    assume "now - now mod 86400000 \<le> x"
    then have "(now div 86400000) * 86400000 \<le> x" by (simp only: eq)
    then have "((now div 86400000) * 86400000) div 86400000 \<le> x div 86400000"
      by (intro zdiv_mono1) simp_all
    then show "now div 86400000 \<le> x div 86400000" by simp
  next
    assume "now div 86400000 \<le> x div 86400000"
    then have "(now div 86400000) * 86400000 \<le> (x div 86400000) * 86400000" by simp
    also have "\<dots> \<le> x"
      using minus_mod_eq_div_mult[of x 86400000, symmetric] pos_mod_sign[of 86400000 x]
      by linarith
    finally show "now - now mod 86400000 \<le> x" by (simp only: eq)
  qed
qed

lemma rows_since_today:
  "rows_since table (Some uid) (startOfDay now)
     = filter (\<lambda>r. row_user_id r = Some uid
                   \<and> now div 86400000 \<le> last_used r div 86400000) table"
  by (simp add: rows_since_def startOfDay_def day_ms_def start_of_day_le)

lemma rows_since_null: "rows_since table None since = []"
  by (simp add: rows_since_def)

text \<open>
  Claim C10. An instant in milliseconds lies on the UTC calendar day numbered by its quotient
  by 86400000. The daily check for a user answers true exactly when the history holds exactly
  one row whose \<open>user_id\<close> is that user and whose \<open>last_used\<close> lies on the current UTC
  day or a later one, whatever its status; with two such rows or more (as with none) the
  single-row fetch yields no data and the check answers false. Rows of other users and rows
  of earlier days do not count. For a user id that is \<^verbatim>\<open>null\<close> it answers false.
\<close>

theorem checkIfAlreadySent_exactly_one:
  "(checkIfAlreadySent table now (Some uid)
      \<longleftrightarrow> length (filter (\<lambda>r. row_user_id r = Some uid
                              \<and> now div 86400000 \<le> last_used r div 86400000) table) = 1)
   \<and> \<not> checkIfAlreadySent table now None"
  unfolding checkIfAlreadySent_def Let_def rows_since_null
  by (simp only: single_iff rows_since_today) (simp add: single_def)

theorem checkIfAlreadySent_exactly_one_witness:
  "checkIfAlreadySent history_mixed noon_1_jan (Some ''u1'') = True
   \<and> length (filter (\<lambda>r. row_user_id r = Some ''u1''
                        \<and> noon_1_jan div 86400000 \<le> last_used r div 86400000) history_mixed) = 1
   \<and> checkIfAlreadySent history_two_records noon_1_jan (Some ''u1'') = False
   \<and> length (filter (\<lambda>r. row_user_id r = Some ''u1''
                        \<and> noon_1_jan div 86400000 \<le> last_used r div 86400000)
               history_two_records) = 2
   \<and> checkIfAlreadySent history_mixed noon_1_jan (Some ''u3'') = False
   \<and> length (filter (\<lambda>r. row_user_id r = Some ''u3''
                        \<and> noon_1_jan div 86400000 \<le> last_used r div 86400000) history_mixed) = 0"
proof -
  have a: "length (filter (\<lambda>r. row_user_id r = Some ''u1''
                        \<and> noon_1_jan div 86400000 \<le> last_used r div 86400000) history_mixed) = 1"
    by (simp add: history_mixed_def noon_1_jan_def)
  have b: "length (filter (\<lambda>r. row_user_id r = Some ''u1''
                        \<and> noon_1_jan div 86400000 \<le> last_used r div 86400000)
               history_two_records) = 2"
    by (simp add: history_two_records_def noon_1_jan_def)
  have c: "length (filter (\<lambda>r. row_user_id r = Some ''u3''
                        \<and> noon_1_jan div 86400000 \<le> last_used r div 86400000) history_mixed) = 0"
    by (simp add: history_mixed_def noon_1_jan_def)
  show ?thesis
    using a b c
      checkIfAlreadySent_exactly_one[of history_mixed noon_1_jan "''u1''"]
      checkIfAlreadySent_exactly_one[of history_two_records noon_1_jan "''u1''"]
      checkIfAlreadySent_exactly_one[of history_mixed noon_1_jan "''u3''"]
    by simp
qed

text \<open>
  Claim C1 at a failing input. On 1 January 2025 the history of user \<open>u1\<close> holds a failed
  record of 01:00 UTC and a success record of 02:00 UTC. A trigger of \<open>u1\<close> fires at 12:00
  UTC the same day: the daily check finds two rows and answers false, the cooldown check finds
  nothing within 3000 seconds, and the brief is generated and delivered a second time.
\<close>

theorem fire_delivers_after_success_today:
  "checkIfAlreadySent history_two_records 1735732800000 (Some ''u1'') = False
   \<and> checkIfSentRecently history_two_records 1735732800000 (Some ''u1'') 3000 = False
   \<and> deliveries (fire user_u1 1735732800000 1735732800000 1735732801000 True
        \<lparr> brief_usage = history_two_records, deliveries = [] \<rparr>)
     = [(Some ''S1'', Some ''u1@example.com'')]"
  by (simp add: fire_def checkIfAlreadySent_def checkIfSentRecently_def Let_def single_def
      maybeSingle_def limit_def rows_since_def startOfDay_def day_ms_def history_two_records_def
      user_u1_def truthy_def logBriefSent_def)

text \<open>
  Claim C9, as the code has it. A firing that the dedup guard stops (the daily check or the
  cooldown check answers true) leaves the world as it was: no record is written to the
  delivery history, neither a skipped one nor a failed one, and no delivery call is made. The
  skip is only printed to the console.
\<close>

theorem fire_skip_writes_nothing:
  "checkIfAlreadySent (brief_usage w) t_daily (user_id u)
     \<or> checkIfSentRecently (brief_usage w) t_cooldown (user_id u) 3000
   \<Longrightarrow> fire u t_daily t_cooldown t_log sent w = w"
  by (auto simp add: fire_def Let_def)

theorem fire_skip_writes_nothing_witness:
  "(checkIfAlreadySent history_one_success 1735732800000 (Some ''u1'')
     \<or> checkIfSentRecently history_one_success 1735732800000 (Some ''u1'') 3000)
   \<and> fire user_u1 1735732800000 1735732800000 1735732801000 True
        \<lparr> brief_usage = history_one_success, deliveries = [] \<rparr>
     = \<lparr> brief_usage = history_one_success, deliveries = [] \<rparr>"
proof -
  have h: "checkIfAlreadySent (brief_usage \<lparr> brief_usage = history_one_success, deliveries = [] \<rparr>)
             1735732800000 (user_id user_u1)
           \<or> checkIfSentRecently (brief_usage \<lparr> brief_usage = history_one_success, deliveries = [] \<rparr>)
             1735732800000 (user_id user_u1) 3000"
    by (simp add: checkIfAlreadySent_def Let_def single_def rows_since_def startOfDay_def
        day_ms_def history_one_success_def user_u1_def)
  from fire_skip_writes_nothing[OF h, of 1735732801000 True] h
  show ?thesis by (simp add: user_u1_def)
qed

text \<open>
  Claim C9 as worded fails: a firing stopped by the daily check writes no skipped record. The
  history holds the one success record before and after the firing.
\<close>

theorem fire_skip_record_counterexample:
  "checkIfAlreadySent history_one_success 1735732800000 (Some ''u1'') = True
   \<and> map status (brief_usage (fire user_u1 1735732800000 1735732800000 1735732801000 True
        \<lparr> brief_usage = history_one_success, deliveries = [] \<rparr>)) = [''success'']"
  by (simp add: fire_def checkIfAlreadySent_def checkIfSentRecently_def Let_def single_def
      maybeSingle_def limit_def rows_since_def startOfDay_def day_ms_def
      history_one_success_def user_u1_def truthy_def logBriefSent_def)

section \<open>Properties of the schedule synchronizer\<close>

lemma task_stop_length: "length (task_stop r ts) = length ts"
  by (simp add: task_stop_def)

lemma stop_all_length:
  "length (foldl (\<lambda>ts (userId, r). task_stop r ts) ts xs) = length ts"
  by (induction xs arbitrary: ts) (auto simp add: task_stop_length)

lemma task_stop_keeps_stopped:
  "i < length ts \<Longrightarrow> \<not> running (ts ! i) \<Longrightarrow> \<not> running (task_stop r ts ! i)"
  by (simp add: task_stop_def nth_list_update)

lemma stop_all_keeps_stopped:
  "i < length ts \<Longrightarrow> \<not> running (ts ! i)
   \<Longrightarrow> \<not> running (foldl (\<lambda>ts (userId, r). task_stop r ts) ts xs ! i)"
proof (induction xs arbitrary: ts)
  case Nil
  then show ?case by simp
next
  case (Cons x xs)
  obtain k r where x: "x = (k, r)" by (cases x)
  have "\<not> running (foldl (\<lambda>ts (userId, r). task_stop r ts) (task_stop r ts) xs ! i)"
    using Cons.prems by (intro Cons.IH) (simp_all add: task_stop_length task_stop_keeps_stopped)
  then show ?case by (simp add: x)
qed

lemma task_stop_stops: "r < length ts \<Longrightarrow> \<not> running (task_stop r ts ! r)"
  by (simp add: task_stop_def)

lemma stop_all_stops:
  "(k, r) \<in> set xs \<Longrightarrow> r < length ts
   \<Longrightarrow> \<not> running (foldl (\<lambda>ts (userId, r). task_stop r ts) ts xs ! r)"
proof (induction xs arbitrary: ts)
  case Nil
  then show ?case by simp
next
  case (Cons x xs)
  obtain k' r' where x: "x = (k', r')" by (cases x)
  show ?case
  proof (cases "x = (k, r)")
    case True
    have "\<not> running (foldl (\<lambda>ts (userId, r). task_stop r ts) (task_stop r ts) xs ! r)"
      using Cons.prems(2)
      by (intro stop_all_keeps_stopped) (simp_all add: task_stop_length task_stop_stops)
    with True show ?thesis by simp
  next
    case False
    with Cons.prems have "(k, r) \<in> set xs" by simp
    then have "\<not> running (foldl (\<lambda>ts (userId, r). task_stop r ts) (task_stop r' ts) xs ! r)"
      using Cons.prems(2) by (intro Cons.IH) (simp_all add: task_stop_length)
    then show ?thesis by (simp add: x)
  qed
qed

lemma getActiveUsers_failure:
  "response = FetchThrows msg \<or> response = FetchResult data (Some err)
   \<Longrightarrow> sync_finish tzd now (getActiveUsers response) s = s"
  by (auto simp add: getActiveUsers_def sync_finish_def)

lemma sync_failure_clears:
  assumes f: "response = FetchThrows msg \<or> response = FetchResult data (Some err)"
  shows "activeTasks (syncAllSchedules tzd now response s) = []
   \<and> length (tasks (syncAllSchedules tzd now response s)) = length (tasks s)
   \<and> (\<forall>(userId, r) \<in> set (activeTasks s). r < length (tasks s)
         \<longrightarrow> \<not> running (tasks (syncAllSchedules tzd now response s) ! r))"
proof -
  have eq: "syncAllSchedules tzd now response s = sync_begin s"
    unfolding syncAllSchedules_def by (rule getActiveUsers_failure[OF f])
  show ?thesis
    unfolding eq
    by (auto simp add: sync_begin_def stop_all_length stop_all_stops)
qed

text \<open>
  A cycle whose two stretches follow each other with no step of another cycle in between is
  the function \<open>syncAllSchedules\<close> run as a whole.
\<close>

lemma sync_run_alone:
  "sched (sync_run tzd now sys [SyncRequest i, FetchDone i response])
     = syncAllSchedules tzd now response (sched sys)"
  by (simp add: sync_run_def sync_step_def syncAllSchedules_def)

text \<open>
  Claim C2, as the code has it. Take a sync cycle that no other sync cycle overlaps: between
  its request and the answer of the registry to it, no step of another cycle runs. When its
  fetch of the active users fails (the query yields an error, or the awaited call rejects),
  the cycle has already stopped every trigger that was active before it and cleared the
  active-trigger map, and it installs nothing: after the cycle the map is empty, no task has
  been created, and each task the map referred to is stopped.
\<close>

theorem sync_registry_failure:
  "response = FetchThrows msg \<or> response = FetchResult data (Some err) \<Longrightarrow>
     activeTasks (sched (sync_run tzd now sys [SyncRequest i, FetchDone i response])) = []
   \<and> length (tasks (sched (sync_run tzd now sys [SyncRequest i, FetchDone i response])))
       = length (tasks (sched sys))
   \<and> (\<forall>(userId, r) \<in> set (activeTasks (sched sys)). r < length (tasks (sched sys))
         \<longrightarrow> \<not> running
               (tasks (sched (sync_run tzd now sys [SyncRequest i, FetchDone i response])) ! r))"
  unfolding sync_run_alone by (rule sync_failure_clears)

theorem sync_registry_failure_witness:
  "(FetchResult None (Some ''connection refused'') = FetchThrows ''timeout''
      \<or> FetchResult None (Some ''connection refused'') = FetchResult None (Some ''connection refused''))
   \<and> activeTasks (sched (sync_run tz_new_york noon_1_jan
        \<lparr> sched = scheduler_with_u1, waiting = [] \<rparr>
        [SyncRequest 1, FetchDone 1 (FetchResult None (Some ''connection refused''))])) = []
   \<and> \<not> running (tasks (sched (sync_run tz_new_york noon_1_jan
        \<lparr> sched = scheduler_with_u1, waiting = [] \<rparr>
        [SyncRequest 1, FetchDone 1 (FetchResult None (Some ''connection refused''))])) ! 0)"
proof -
  have h: "FetchResult None (Some ''connection refused'') = FetchThrows ''timeout''
      \<or> FetchResult None (Some ''connection refused'') = FetchResult None (Some ''connection refused'')"
    by simp
  from sync_registry_failure[OF h, of tz_new_york noon_1_jan
      "\<lparr> sched = scheduler_with_u1, waiting = [] \<rparr>" 1]
  show ?thesis by (simp add: scheduler_with_u1_def)
qed

text \<open>
  Claim C2 as worded fails: a scheduler with one running trigger, for \<open>u1\<close>, goes through
  a sync cycle in which the registry answers with an error. After the cycle there is no
  active trigger and the task of \<open>u1\<close> is stopped. And the map is empty after a failed
  cycle only if no other cycle overlaps it: when a second cycle starts while the first waits,
  and the registry answers the second with the entry of \<open>u1\<close> and then the first with an
  error, the map holds the trigger the second cycle installed.
\<close>

theorem sync_registry_failure_counterexample:
  "activeTasks scheduler_with_u1 = [(''u1'', 0)]
   \<and> map running (tasks scheduler_with_u1) = [True]
   \<and> activeTasks (syncAllSchedules tz_new_york noon_1_jan
        (FetchResult None (Some ''connection refused'')) scheduler_with_u1) = []
   \<and> map running (tasks (syncAllSchedules tz_new_york noon_1_jan
        (FetchResult None (Some ''connection refused'')) scheduler_with_u1)) = [False]
   \<and> activeTasks (sched (sync_run tz_new_york noon_1_jan
        \<lparr> sched = scheduler_with_u1, waiting = [] \<rparr>
        [SyncRequest 1, SyncRequest 2,
         FetchDone 2 (FetchResult (Some [user_u1]) None),
         FetchDone 1 (FetchResult None (Some ''connection refused''))])) = [(''u1'', 1)]"
  by code_simp


subsection \<open>Which entries get a trigger\<close>

lemma split_on_nonempty: "split_on c s \<noteq> []"
  by (induction s) (auto split: list.splits)

lemma split_on_no_separator: "c \<notin> set a \<Longrightarrow> split_on c a = [a]"
  by (induction a) auto

lemma split_on_append: "c \<notin> set a \<Longrightarrow> split_on c (a @ c # b) = a # split_on c b"
  by (induction a) auto

lemma minute_field:
  "m < 60 \<Longrightarrow> field_ok 0 59 (show_nat m) \<and> CHR '' '' \<notin> set (show_nat m)"
proof -
  have "list_all (\<lambda>m. field_ok 0 59 (show_nat m) \<and> CHR '' '' \<notin> set (show_nat m)) [0..<60]"
    by code_simp
  then show "m < 60 \<Longrightarrow> ?thesis"
    by (simp add: list_all_iff)
qed

lemma hour_field:
  "h < 24 \<Longrightarrow> field_ok 0 23 (show_nat h) \<and> CHR '' '' \<notin> set (show_nat h)"
proof -
  have "list_all (\<lambda>h. field_ok 0 23 (show_nat h) \<and> CHR '' '' \<notin> set (show_nat h)) [0..<24]"
    by code_simp
  then show "h < 24 \<Longrightarrow> ?thesis"
    by (simp add: list_all_iff)
qed

lemma star_fields: "split_on CHR '' '' ''* * *'' = [''*'', ''*'', ''*'']"
  by simp

lemma validate_minute_hour:
  assumes "m < 60" "h < 24"
  shows "validate_expression (show_nat m @ '' '' @ show_nat h @ '' * * *'')"
proof -
  have sp: "split_on CHR '' '' (show_nat m @ '' '' @ show_nat h @ '' * * *'')
      = [show_nat m, show_nat h, ''*'', ''*'', ''*'']"
    using minute_field[OF assms(1)] hour_field[OF assms(2)]
    by (simp add: split_on_append star_fields del: split_on.simps)
  show ?thesis
    unfolding validate_expression_def sp
    using minute_field[OF assms(1)] hour_field[OF assms(2)]
    by (simp add: field_ok_def)
qed

lemma validate_NaN: "\<not> validate_expression ''NaN NaN * * *''"
  by code_simp

lemma moment_invalid_iff:
  "convertToCronTime_moment tzd now tp tz = None \<longleftrightarrow> time_of_day tp = None"
  by (simp add: convertToCronTime_moment_def time_of_day_def moment_tz_parse_def Let_def
      split: option.splits prod.splits)

lemma convertToCronTime_invalid:
  "time_of_day tp = None \<Longrightarrow> convertToCronTime tzd now tp tz = ''NaN NaN * * *''"
  using moment_invalid_iff[of tzd now tp tz]
  by (simp add: convertToCronTime_def Let_def moment_minutes_def moment_hours_def show_number_def)

lemma convertToCronTime_valid:
  assumes "time_of_day tp \<noteq> None"
  shows "validate_expression (convertToCronTime tzd now tp tz)"
proof -
  from assms moment_invalid_iff[of tzd now tp tz]
  obtain t where t: "convertToCronTime_moment tzd now tp tz = Some t" by auto
  have m: "nat ((t div 60000) mod 60) < 60" by simp
  have h: "nat ((t div 3600000) mod 24) < 24" by simp
  show ?thesis
    using validate_minute_hour[OF m h]
    by (simp add: convertToCronTime_def Let_def t moment_minutes_def moment_hours_def
        show_number_def)
qed

lemma validate_convertToCronTime:
  "validate_expression (convertToCronTime tzd now tp tz) \<longleftrightarrow> time_of_day tp \<noteq> None"
proof (cases "time_of_day tp")
  case None
  then show ?thesis
    using convertToCronTime_invalid[of tp tzd now tz] validate_NaN by simp
next
  case (Some hm)
  then show ?thesis
    using convertToCronTime_valid[of tp tzd now tz] by simp
qed

lemma invalid_message_NaN:
  "invalid_message ''NaN NaN * * *'' = ''NaN is a invalid expression for minute''"
  by code_simp

lemma createUserCronJob_result:
  "truthy (delivery_time u) \<Longrightarrow> truthy (timezone u) \<Longrightarrow>
   createUserCronJob tzd now u =
     (if time_of_day (the (delivery_time u)) \<noteq> None
      then Inr \<lparr> task_user = u,
                 task_expression = convertToCronTime tzd now (the (delivery_time u)) (the (timezone u)),
                 running = False \<rparr>
      else Inl (JsError ''NaN is a invalid expression for minute''))"
proof (cases "time_of_day (the (delivery_time u))")
  case None
  assume "truthy (delivery_time u)" "truthy (timezone u)"
  then show ?thesis
    using None convertToCronTime_invalid[OF None, of tzd now "the (timezone u)"] validate_NaN
    by (auto simp add: createUserCronJob_def cron_schedule_def truthy_def Let_def
        invalid_message_NaN split: option.splits)
next
  case (Some hm)
  assume "truthy (delivery_time u)" "truthy (timezone u)"
  then show ?thesis
    using Some validate_convertToCronTime[of tzd now "the (delivery_time u)" "the (timezone u)"]
    by (auto simp add: createUserCronJob_def cron_schedule_def truthy_def Let_def
        split: option.splits)
qed

lemma map_set_keys: "fst ` set (map_set k v m) = insert k (fst ` set m)"
  by (force simp add: map_set_def image_iff split: if_splits)

lemma active_ids_sync_user:
  "truthy (slack_user_id u) \<Longrightarrow>
   active_ids (sync_user tzd now s u)
     = (if schedulable u then insert (the (user_id u)) (active_ids s) else active_ids s)"
  by (auto simp add: sync_user_def active_ids_def schedulable_def has_required_fields_def
      createUserCronJob_result map_set_keys)

lemma active_ids_sync_loop:
  "\<forall>u \<in> set us. truthy (slack_user_id u) \<Longrightarrow>
   active_ids (foldl (sync_user tzd now) s us)
     = active_ids s \<union> {the (user_id u) | u. u \<in> set us \<and> schedulable u}"
proof (induction us arbitrary: s)
  case Nil
  then show ?case by simp
next
  case (Cons u us)
  then show ?case
    by (auto simp add: active_ids_sync_user)
qed

lemma schedulable_slack: "schedulable u \<Longrightarrow> truthy (slack_user_id u)"
  by (simp add: schedulable_def has_required_fields_def)

lemma syncAllSchedules_active_ids:
  "active_ids (syncAllSchedules tzd now (FetchResult (Some rows) None) s)
     = {the (user_id u) | u. u \<in> set rows \<and> schedulable u}"
proof -
  have b: "active_ids (sync_begin s) = {}"
    by (simp add: active_ids_def sync_begin_def)
  have "active_ids (foldl (sync_user tzd now) (sync_begin s)
           (filter (\<lambda>user. truthy (slack_user_id user)) rows))
      = {the (user_id u) | u. u \<in> set rows \<and> schedulable u}"
    using schedulable_slack
    by (subst active_ids_sync_loop) (auto simp add: b)
  then show ?thesis
    by (cases rows) (simp_all add: syncAllSchedules_def sync_finish_def getActiveUsers_def)
qed

text \<open>
  Claim C7, as the code has it. Take a completed sync cycle whose fetch of the registry
  succeeded and that no other sync cycle overlaps: between its request and the answer of the
  registry to it, no step of another cycle runs. After it, the user ids of the active-trigger
  map are exactly the user ids of the fetched entries that have \<open>user_id\<close>,
  \<open>delivery_time\<close>, \<open>timezone\<close> and \<open>slack_user_id\<close> present (not \<^verbatim>\<open>null\<close>, not
  empty) and a delivery time that the time parser reads as a time of day. Entries that lack a
  field, or whose delivery time is unreadable, have no trigger.
\<close>

theorem sync_active_ids:
  "active_ids (sched (sync_run tzd now sys
       [SyncRequest i, FetchDone i (FetchResult (Some rows) None)]))
     = {the (user_id u) | u. u \<in> set rows \<and> schedulable u}"
  unfolding sync_run_alone by (rule syncAllSchedules_active_ids)

theorem sync_active_ids_witness:
  "active_ids (sched (sync_run tz_new_york noon_1_jan
       \<lparr> sched = scheduler_with_u1, waiting = [] \<rparr>
       [SyncRequest 1, FetchDone 1 (FetchResult (Some [user_u1, user_bad_time]) None)]))
     = {the (user_id u) | u. u \<in> set [user_u1, user_bad_time] \<and> schedulable u}
   \<and> active_ids (sched (sync_run tz_new_york noon_1_jan
       \<lparr> sched = scheduler_with_u1, waiting = [] \<rparr>
       [SyncRequest 1, FetchDone 1 (FetchResult (Some [user_u1, user_bad_time]) None)]))
     = {''u1''}"
proof
  show "active_ids (sched (sync_run tz_new_york noon_1_jan
       \<lparr> sched = scheduler_with_u1, waiting = [] \<rparr>
       [SyncRequest 1, FetchDone 1 (FetchResult (Some [user_u1, user_bad_time]) None)]))
     = {the (user_id u) | u. u \<in> set [user_u1, user_bad_time] \<and> schedulable u}"
    by (rule sync_active_ids)
  show "active_ids (sched (sync_run tz_new_york noon_1_jan
       \<lparr> sched = scheduler_with_u1, waiting = [] \<rparr>
       [SyncRequest 1, FetchDone 1 (FetchResult (Some [user_u1, user_bad_time]) None)]))
     = {''u1''}"
    by code_simp
qed

text \<open>
  Claim C7 as worded fails: the entry of \<open>u2\<close> has every required field and a recipient,
  but its delivery time is \<^verbatim>\<open>25:99\<close>; the converter builds \<^verbatim>\<open>NaN NaN * * *\<close>, the
  cron library rejects it, and after the cycle \<open>u2\<close> has no trigger. And the equality holds
  only for a cycle that no other cycle overlaps: when a second cycle starts while the first
  waits, and the registry answers the first with the entries of \<open>u1\<close> and \<open>u3\<close> and then
  the second with the entry of \<open>u1\<close> alone, both cycles complete and the map still holds
  the trigger of \<open>u3\<close>.
\<close>

theorem sync_active_ids_counterexample:
  "has_required_fields user_bad_time
   \<and> active_ids (syncAllSchedules tz_new_york noon_1_jan
       (FetchResult (Some [user_bad_time]) None) empty_scheduler) = {}
   \<and> active_ids (sched (sync_run tz_new_york noon_1_jan
        \<lparr> sched = empty_scheduler, waiting = [] \<rparr>
        [SyncRequest 1, SyncRequest 2,
         FetchDone 1 (FetchResult (Some [user_u1, user_unknown_zone]) None),
         FetchDone 2 (FetchResult (Some [user_u1]) None)])) = {''u1'', ''u3''}"
  by code_simp

lemma convertToCronTime_unknown_zone:
  "tzd tz = None \<Longrightarrow>
   convertToCronTime tzd now tp tz = convertToCronTime (\<lambda>name. Some utc_zone) now tp tz"
  by (simp add: convertToCronTime_def convertToCronTime_moment_def today_in_def
      moment_tz_parse_def zone_utcOffset_def zone_parse_def utc_zone_def Let_def
      split: option.splits)

lemma sync_user_skip:
  "createUserCronJob tzd now u = Inl e \<Longrightarrow> sync_user tzd now s u = s"
  by (simp add: sync_user_def)

lemma sync_loop_skip:
  "createUserCronJob tzd now u = Inl e \<Longrightarrow>
   foldl (sync_user tzd now) s (xs @ u # ys) = foldl (sync_user tzd now) s (xs @ ys)"
  by (simp add: sync_user_skip)

lemma syncAllSchedules_skip:
  assumes "createUserCronJob tzd now u = Inl e"
  shows "syncAllSchedules tzd now (FetchResult (Some (us1 @ u # us2)) None) s
       = syncAllSchedules tzd now (FetchResult (Some (us1 @ us2)) None) s"
proof -
  let ?ok = "\<lambda>user. truthy (slack_user_id user)"
  have "foldl (sync_user tzd now) (sync_begin s) (filter ?ok (us1 @ u # us2))
      = foldl (sync_user tzd now) (sync_begin s) (filter ?ok (us1 @ us2))"
    using sync_loop_skip[OF assms, of "sync_begin s" "filter ?ok us1" "filter ?ok us2"]
    by simp
  then show ?thesis
    by (simp add: syncAllSchedules_def sync_finish_def getActiveUsers_def)
qed

text \<open>
  Claim C6, as the code has it. The trigger converter never fails, it always returns a cron
  expression: for a time zone the library has no data for, the one it returns for UTC; for a
  delivery time the parser cannot read as a time of day, \<^verbatim>\<open>NaN NaN * * *\<close>; for any
  delivery time the parser does read, an expression the cron library accepts. A user for whom
  creating the trigger throws is skipped by the sync cycle, which goes on: the cycle ends as
  it would have without that entry.
\<close>

theorem converter_returns_sync_skips:
  "(tzd tz = None \<longrightarrow>
      convertToCronTime tzd now tp tz = convertToCronTime (\<lambda>name. Some utc_zone) now tp tz)
   \<and> (time_of_day tp = None \<longrightarrow> convertToCronTime tzd now tp tz = ''NaN NaN * * *'')
   \<and> (time_of_day tp \<noteq> None \<longrightarrow> validate_expression (convertToCronTime tzd now tp tz))
   \<and> (createUserCronJob tzd now u = Inl e \<longrightarrow>
        syncAllSchedules tzd now (FetchResult (Some (us1 @ u # us2)) None) s
          = syncAllSchedules tzd now (FetchResult (Some (us1 @ us2)) None) s)"
  using convertToCronTime_unknown_zone[of tzd tz now tp]
    convertToCronTime_invalid[of tp tzd now tz] convertToCronTime_valid[of tp tzd now tz]
    syncAllSchedules_skip[of tzd now u e us1 us2 s]
  by blast

text \<open>
  Claim C6 as worded fails: for the unrecognized zone \<^verbatim>\<open>Mars/Phobos\<close> the converter
  returns a value, the schedule of 08:00 UTC, and the sync cycle installs a trigger for the
  user instead of skipping them.
\<close>

theorem converter_returns_sync_skips_counterexample:
  "tz_new_york ''Mars/Phobos'' = None
   \<and> convertToCronTime tz_new_york noon_1_jan ''08:00'' ''Mars/Phobos'' = ''0 8 * * *''
   \<and> active_ids (syncAllSchedules tz_new_york noon_1_jan
        (FetchResult (Some [user_unknown_zone]) None) empty_scheduler) = {''u3''}"
  by code_simp

theorem converter_returns_sync_skips_witness:
  "tz_new_york ''Mars/Phobos'' = None
   \<and> convertToCronTime tz_new_york noon_1_jan ''25:99'' ''Mars/Phobos''
       = convertToCronTime (\<lambda>name. Some utc_zone) noon_1_jan ''25:99'' ''Mars/Phobos''
   \<and> time_of_day ''25:99'' = None
   \<and> convertToCronTime tz_new_york noon_1_jan ''25:99'' ''Mars/Phobos'' = ''NaN NaN * * *''
   \<and> time_of_day ''08:00'' \<noteq> None
   \<and> validate_expression (convertToCronTime tz_new_york noon_1_jan ''08:00'' ''Mars/Phobos'')
   \<and> createUserCronJob tz_new_york noon_1_jan user_bad_time
       = Inl (JsError ''NaN is a invalid expression for minute'')
   \<and> syncAllSchedules tz_new_york noon_1_jan
        (FetchResult (Some ([user_u1] @ user_bad_time # [user_unknown_zone])) None) scheduler_with_u1
       = syncAllSchedules tz_new_york noon_1_jan
        (FetchResult (Some ([user_u1] @ [user_unknown_zone])) None) scheduler_with_u1"
proof -
  have z: "tz_new_york ''Mars/Phobos'' = None" by (simp add: tz_new_york_def)
  have t: "time_of_day ''25:99'' = None" by code_simp
  have t': "time_of_day ''08:00'' \<noteq> None" by code_simp
  have c: "createUserCronJob tz_new_york noon_1_jan user_bad_time
       = Inl (JsError ''NaN is a invalid expression for minute'')" by code_simp
  show ?thesis
    using z t t' c
      converter_returns_sync_skips[of tz_new_york "''Mars/Phobos''" noon_1_jan "''25:99''"
        user_bad_time "JsError ''NaN is a invalid expression for minute''" "[user_u1]"
        "[user_unknown_zone]" scheduler_with_u1]
      converter_returns_sync_skips[of tz_new_york "''Mars/Phobos''" noon_1_jan "''08:00''"
        user_bad_time "JsError ''NaN is a invalid expression for minute''" "[user_u1]"
        "[user_unknown_zone]" scheduler_with_u1]
    by blast
qed

section \<open>Properties of the trigger converter\<close>

lemma digit_table:
  "list_all (\<lambda>j. is_digit (''0123456789'' ! j) \<and> digit_val (''0123456789'' ! j) = j
       \<and> ''0123456789'' ! j \<noteq> CHR '':'') [0..<10]"
  by code_simp

lemma digit_char_props:
  "is_digit (digit_char n)" "digit_val (digit_char n) = n mod 10" "digit_char n \<noteq> CHR '':''"
proof -
  have "n mod 10 \<in> set [0..<10]" by simp
  with digit_table have
    "is_digit (''0123456789'' ! (n mod 10)) \<and> digit_val (''0123456789'' ! (n mod 10)) = n mod 10
       \<and> ''0123456789'' ! (n mod 10) \<noteq> CHR '':''"
    unfolding list_all_iff by blast
  then show "is_digit (digit_char n)" "digit_val (digit_char n) = n mod 10"
    "digit_char n \<noteq> CHR '':''"
    by (simp_all add: digit_char_def)
qed

lemma two_digits_value:
  "n < 100 \<Longrightarrow> 10 * digit_val (digit_char (n div 10)) + digit_val (digit_char n) = n"
  by (simp add: digit_char_props)

lemma split_hhmm: "split_on CHR '':'' (hhmm h m) = [two_digits h, two_digits m]"
  by (simp add: hhmm_def two_digits_def digit_char_props)

lemma parse_hhmm:
  assumes "h < 24" "m < 60"
  shows "parse_HH_mm (hhmm h m) = Some (h, m)"
proof -
  have h: "10 * digit_val (digit_char (h div 10)) + digit_val (digit_char h) = h"
    using assms by (intro two_digits_value) simp
  have m: "10 * digit_val (digit_char (m div 10)) + digit_val (digit_char m) = m"
    using assms by (intro two_digits_value) simp
  show ?thesis
    using assms
    by (simp add: parse_HH_mm_def hhmm_def two_digits_def match_literal_def digit_char_props(1,3)
        h m Let_def)
qed

lemma time_of_day_hhmm: "h < 24 \<Longrightarrow> m < 60 \<Longrightarrow> time_of_day (hhmm h m) = Some (h, m)"
  using parse_hhmm[of h m]
  by (simp add: time_of_day_def split_hhmm Let_def) (simp add: hhmm_def)

text \<open>
  An entry with all its fields and a delivery time written \<^verbatim>\<open>HH:MM\<close> within the range
  of the clock gets a trigger.
\<close>

lemma well_formed_schedulable:
  "has_required_fields u \<Longrightarrow> delivery_time u = Some (hhmm h m) \<Longrightarrow> h < 24 \<Longrightarrow> m < 60
   \<Longrightarrow> schedulable u"
  by (simp add: schedulable_def time_of_day_hhmm)

lemma moment_hhmm:
  assumes "tzd tz = Some z" "h < 24" "m < 60"
  shows "convertToCronTime_moment tzd now (hhmm h m) tz
       = Some (local_timestamp (today_in tzd tz now) h m
               + zone_parse z (local_timestamp (today_in tzd tz now) h m) * 60000)"
proof -
  have "parse_HH_mm (two_digits h @ '':'' @ two_digits m) = Some (h, m)"
    using parse_hhmm[OF assms(2,3)] by (simp add: hhmm_def)
  then show ?thesis
    using assms(1)
    by (simp add: convertToCronTime_moment_def split_hhmm moment_tz_parse_def Let_def)
qed

lemma local_timestamp_day:
  assumes "h < 24" "m < 60"
  shows "local_timestamp day h m div day_ms = day"
proof -
  have "local_timestamp day h m = (int h * 3600000 + int m * 60000) + day * 86400000"
    by (simp add: local_timestamp_def day_ms_def)
  moreover have "0 \<le> int h * 3600000 + int m * 60000" by simp
  moreover have "int h * 3600000 + int m * 60000 < 86400000" using assms by simp
  ultimately show ?thesis by (simp add: day_ms_def)
qed

lemma local_timestamp_hour:
  assumes "h < 24" "m < 60"
  shows "nat ((local_timestamp day h m div 3600000) mod 24) = h"
proof -
  have "local_timestamp day h m = int m * 60000 + (day * 24 + int h) * 3600000"
    by (simp add: local_timestamp_def day_ms_def algebra_simps)
  moreover have "0 \<le> int m * 60000" "int m * 60000 < 3600000" using assms by simp_all
  ultimately have "local_timestamp day h m div 3600000 = day * 24 + int h"
    by simp
  then show ?thesis using assms by simp
qed

lemma local_timestamp_minute:
  assumes "m < 60"
  shows "nat ((local_timestamp day h m div 60000) mod 60) = m"
proof -
  have "local_timestamp day h m = (int m + (day * 24 + int h) * 60) * 60000"
    by (simp add: local_timestamp_def day_ms_def algebra_simps)
  then have d: "local_timestamp day h m div 60000 = int m + (day * 24 + int h) * 60"
    by simp
  have "(int m + (day * 24 + int h) * 60) mod 60 = int m mod 60"
    by (rule mod_mult_self1)
  then show ?thesis using assms unfolding d by simp
qed

lemma wall_clock_resolved:
  assumes "h < 24" "m < 60"
    and "zone_utcOffset z (local_timestamp day h m + p * 60000) = p"
  shows "wall_clock z (local_timestamp day h m + p * 60000) = (day, h, m)"
  using assms
  by (simp add: wall_clock_def Let_def local_timestamp_day local_timestamp_hour
      local_timestamp_minute)

lemma shifted_fields:
  "nat (((local_timestamp day 8 0 + 240 * 60000) div 60000) mod 60) = 0"
  "nat (((local_timestamp day 8 0 + 240 * 60000) div 3600000) mod 24) = 12"
  "nat (((local_timestamp day 8 0 + 300 * 60000) div 60000) mod 60) = 0"
  "nat (((local_timestamp day 8 0 + 300 * 60000) div 3600000) mod 24) = 13"
proof -
  have a: "local_timestamp day 8 0 + 240 * 60000 = local_timestamp day 12 0"
    by (simp add: local_timestamp_def)
  have b: "local_timestamp day 8 0 + 300 * 60000 = local_timestamp day 13 0"
    by (simp add: local_timestamp_def)
  show "nat (((local_timestamp day 8 0 + 240 * 60000) div 60000) mod 60) = 0"
    unfolding a by (rule local_timestamp_minute) simp
  show "nat (((local_timestamp day 8 0 + 240 * 60000) div 3600000) mod 24) = 12"
    unfolding a by (rule local_timestamp_hour) simp_all
  show "nat (((local_timestamp day 8 0 + 300 * 60000) div 60000) mod 60) = 0"
    unfolding b by (rule local_timestamp_minute) simp
  show "nat (((local_timestamp day 8 0 + 300 * 60000) div 3600000) mod 24) = 13"
    unfolding b by (rule local_timestamp_hour) simp_all
qed

lemma show_nat_values: "show_nat 0 = ''0''" "show_nat 12 = ''12''" "show_nat 13 = ''13''"
  by code_simp+

lemma hhmm_0800: "hhmm 8 0 = ''08:00''"
  by code_simp

lemma new_york_0800_moment:
  assumes "tzd ''America/New_York'' = Some z"
    and "zone_parse z (local_timestamp (today_in tzd ''America/New_York'' now) 8 0) = p"
  shows "convertToCronTime_moment tzd now ''08:00'' ''America/New_York''
       = Some (local_timestamp (today_in tzd ''America/New_York'' now) 8 0 + p * 60000)"
proof -
  have "convertToCronTime_moment tzd now (hhmm 8 0) ''America/New_York''
       = Some (local_timestamp (today_in tzd ''America/New_York'' now) 8 0
               + zone_parse z (local_timestamp (today_in tzd ''America/New_York'' now) 8 0)
                   * 60000)"
    by (rule moment_hhmm[of tzd "''America/New_York''" z 8 0 now]) (simp_all add: assms(1))
  then show ?thesis unfolding hhmm_0800 assms(2) .
qed

lemma new_york_0800_summer:
  assumes "convertToCronTime_moment tzd now ''08:00'' ''America/New_York''
      = Some (local_timestamp day 8 0 + 240 * 60000)"
  shows "convertToCronTime tzd now ''08:00'' ''America/New_York'' = ''0 12 * * *''"
proof -
  have "convertToCronTime tzd now ''08:00'' ''America/New_York''
     = show_nat 0 @ '' '' @ show_nat 12 @ '' * * *''"
    unfolding convertToCronTime_def Let_def assms moment_minutes_def moment_hours_def
      show_number_def option.map option.case shifted_fields ..
  then show ?thesis unfolding show_nat_values by simp
qed

lemma new_york_0800_winter:
  assumes "convertToCronTime_moment tzd now ''08:00'' ''America/New_York''
      = Some (local_timestamp day 8 0 + 300 * 60000)"
  shows "convertToCronTime tzd now ''08:00'' ''America/New_York'' = ''0 13 * * *''"
proof -
  have "convertToCronTime tzd now ''08:00'' ''America/New_York''
     = show_nat 0 @ '' '' @ show_nat 13 @ '' * * *''"
    unfolding convertToCronTime_def Let_def assms moment_minutes_def moment_hours_def
      show_number_def option.map option.case shifted_fields ..
  then show ?thesis unfolding show_nat_values by simp
qed

text \<open>
  The offset the library resolves a wall-clock time with is the offset in force at the instant
  it resolves to, for every wall-clock time that no forward jump of the zone skips.
\<close>

lemma parse_at_sound:
  "sorted (map fst suf) \<Longrightarrow> (\<forall>u \<in> fst ` set suf. lb \<le> u) \<Longrightarrow> \<not> in_gap suf final T
   \<Longrightarrow> lb \<le> T + next_offset suf final * 60000
   \<Longrightarrow> offset_at suf final (T + parse_at suf final T * 60000) = parse_at suf final T
       \<and> lb \<le> T + parse_at suf final T * 60000"
proof (induction suf arbitrary: lb)
  case Nil
  then show ?case by simp
next
  case (Cons x rest)
  obtain u ofs where x: "x = (u, ofs)" by (cases x)
  let ?nxt = "next_offset rest final"
  let ?off = "if ofs > ?nxt then ?nxt else ofs"
  from Cons.prems(3)
  have nogap: "\<not> (?nxt < ofs \<and> u - ofs * 60000 \<le> T \<and> T < u - ?nxt * 60000)"
    and nogap_rest: "\<not> in_gap rest final T"
    by (simp_all add: x)
  from Cons.prems(1) have srt: "sorted (map fst rest)" and ge: "\<forall>v \<in> fst ` set rest. u \<le> v"
    by (auto simp add: x)
  from Cons.prems(4) have lbo: "lb \<le> T + ofs * 60000" by (simp add: x)
  from Cons.prems(2) have lbu: "lb \<le> u" by (simp add: x)
  show ?case
  proof (cases "T < u - ?off * 60000")
    case True
    then have p: "parse_at (x # rest) final T = ofs" by (simp add: x Let_def)
    have "T + ofs * 60000 < u"
    proof (cases "ofs > ?nxt")
      case False
      with True show ?thesis by simp
    next
      case gt: True
      with True have "T < u - ?nxt * 60000" by simp
      with nogap gt show ?thesis by auto
    qed
    then show ?thesis using lbo by (simp add: p) (simp add: x)
  next
    case False
    then have p: "parse_at (x # rest) final T = parse_at rest final T"
      by (simp add: x Let_def)
    have "?off \<le> ?nxt" by simp
    then have "u - ?nxt * 60000 \<le> u - ?off * 60000" by simp
    with False have next_ge: "u \<le> T + ?nxt * 60000" by linarith
    from Cons.IH[OF srt ge nogap_rest next_ge]
    have ih: "offset_at rest final (T + parse_at rest final T * 60000) = parse_at rest final T"
      and ihlb: "u \<le> T + parse_at rest final T * 60000"
      by simp_all
    show ?thesis using ih ihlb lbu by (simp add: p) (simp add: x)
  qed
qed

lemma fold_min_lower:
  "fold min xs (a::int) \<le> a \<and> (\<forall>v \<in> set xs. fold min xs a \<le> v)"
proof (induction xs arbitrary: a)
  case Nil
  then show ?case by simp
next
  case (Cons y ys)
  from Cons.IH[of "min y a"] show ?case by auto
qed

lemma zone_parse_sound:
  assumes "zone_ordered z" "\<not> zone_in_gap z T"
  shows "zone_utcOffset z (T + zone_parse z T * 60000) = zone_parse z T"
proof -
  let ?a = "T + next_offset (spans z) (lastOffset z) * 60000"
  let ?lb = "fold min (map fst (spans z)) ?a"
  have 1: "\<forall>u \<in> fst ` set (spans z). ?lb \<le> u"
    using fold_min_lower[of "map fst (spans z)" ?a] by auto
  have 2: "?lb \<le> ?a"
    using fold_min_lower[of "map fst (spans z)" ?a] by simp
  from parse_at_sound[OF _ 1 _ 2] assms
  show ?thesis
    by (simp add: zone_utcOffset_def zone_parse_def zone_ordered_def zone_in_gap_def)
qed

lemma round_trip_instant:
  assumes "tzd tz = Some z" "zone_ordered z" "h < 24" "m < 60"
    and "\<not> zone_in_gap z (local_timestamp (today_in tzd tz now) h m)"
  shows "\<exists>u. convertToCronTime_moment tzd now (hhmm h m) tz = Some u
          \<and> convertToCronTime tzd now (hhmm h m) tz
              = show_nat (nat ((u div 60000) mod 60)) @ '' ''
                  @ show_nat (nat ((u div 3600000) mod 24)) @ '' * * *''
          \<and> wall_clock z u = (today_in tzd tz now, h, m)"
proof -
  let ?T = "local_timestamp (today_in tzd tz now) h m"
  let ?u = "?T + zone_parse z ?T * 60000"
  have mo: "convertToCronTime_moment tzd now (hhmm h m) tz = Some ?u"
    using assms(1,3,4) by (intro moment_hhmm) simp_all
  have "zone_utcOffset z ?u = zone_parse z ?T"
    using assms(2,5) by (rule zone_parse_sound)
  then have w: "wall_clock z ?u = (today_in tzd tz now, h, m)"
    using assms(3,4) by (intro wall_clock_resolved) simp_all
  have c: "convertToCronTime tzd now (hhmm h m) tz
              = show_nat (nat ((?u div 60000) mod 60)) @ '' ''
                  @ show_nat (nat ((?u div 3600000) mod 24)) @ '' * * *''"
    by (simp add: convertToCronTime_def Let_def mo moment_minutes_def moment_hours_def
        show_number_def)
  from mo c w show ?thesis by blast
qed

lemma new_york_0800_offset:
  assumes "tzd ''America/New_York'' = Some z" "zone_ordered z"
    and "\<not> zone_in_gap z (local_timestamp (today_in tzd ''America/New_York'' now) 8 0)"
    and "convertToCronTime_moment tzd now ''08:00'' ''America/New_York'' = Some u"
    and "zone_utcOffset z u = p"
  shows "convertToCronTime_moment tzd now ''08:00'' ''America/New_York''
       = Some (local_timestamp (today_in tzd ''America/New_York'' now) 8 0 + p * 60000)"
proof -
  let ?T = "local_timestamp (today_in tzd ''America/New_York'' now) 8 0"
  have mo: "convertToCronTime_moment tzd now ''08:00'' ''America/New_York''
       = Some (?T + zone_parse z ?T * 60000)"
    using assms(1) by (intro new_york_0800_moment) simp_all
  with assms(4) have u: "u = ?T + zone_parse z ?T * 60000" by simp
  have "zone_utcOffset z (?T + zone_parse z ?T * 60000) = zone_parse z ?T"
    using assms(2,3) by (rule zone_parse_sound)
  with assms(5) u have "zone_parse z ?T = p" by simp
  with mo show ?thesis by simp
qed

text \<open>
  Claim C3, as the code has it. Take a time zone the library knows, the spans of its table in
  the order of time, and a local time \<^verbatim>\<open>HH:MM\<close> that today's date has in that zone: one
  that no forward jump of the clocks skips. Then the converter's cron expression holds the UTC
  minute and hour of the instant the local time is resolved to, and the wall clock of the zone
  at that instant shows today's date and the original hour and minute. For
  \<^verbatim>\<open>America/New_York\<close> and \<^verbatim>\<open>08:00\<close> the expression is \<^verbatim>\<open>0 12 * * *\<close> when the
  offset in force in New York at the trigger instant is UTC-4 (240 minutes) and
  \<^verbatim>\<open>0 13 * * *\<close> when it is UTC-5 (300).
\<close>

theorem convertToCronTime_round_trip:
  "(tzd tz = Some z \<and> zone_ordered z \<and> h < 24 \<and> m < 60
      \<and> \<not> zone_in_gap z (local_timestamp (today_in tzd tz now) h m)
    \<longrightarrow> (\<exists>u. convertToCronTime_moment tzd now (hhmm h m) tz = Some u
          \<and> convertToCronTime tzd now (hhmm h m) tz
              = show_nat (nat ((u div 60000) mod 60)) @ '' ''
                  @ show_nat (nat ((u div 3600000) mod 24)) @ '' * * *''
          \<and> wall_clock z u = (today_in tzd tz now, h, m)))
   \<and> (tzd ''America/New_York'' = Some z \<and> zone_ordered z
      \<and> \<not> zone_in_gap z (local_timestamp (today_in tzd ''America/New_York'' now) 8 0)
      \<and> convertToCronTime_moment tzd now ''08:00'' ''America/New_York'' = Some v
      \<and> zone_utcOffset z v = 240
    \<longrightarrow> convertToCronTime tzd now ''08:00'' ''America/New_York'' = ''0 12 * * *'')
   \<and> (tzd ''America/New_York'' = Some z \<and> zone_ordered z
      \<and> \<not> zone_in_gap z (local_timestamp (today_in tzd ''America/New_York'' now) 8 0)
      \<and> convertToCronTime_moment tzd now ''08:00'' ''America/New_York'' = Some w
      \<and> zone_utcOffset z w = 300
    \<longrightarrow> convertToCronTime tzd now ''08:00'' ''America/New_York'' = ''0 13 * * *'')"
proof (intro conjI impI)
  assume "tzd tz = Some z \<and> zone_ordered z \<and> h < 24 \<and> m < 60
      \<and> \<not> zone_in_gap z (local_timestamp (today_in tzd tz now) h m)"
  then show "\<exists>u. convertToCronTime_moment tzd now (hhmm h m) tz = Some u
          \<and> convertToCronTime tzd now (hhmm h m) tz
              = show_nat (nat ((u div 60000) mod 60)) @ '' ''
                  @ show_nat (nat ((u div 3600000) mod 24)) @ '' * * *''
          \<and> wall_clock z u = (today_in tzd tz now, h, m)"
    by (intro round_trip_instant) simp_all
next
  assume a: "tzd ''America/New_York'' = Some z \<and> zone_ordered z
      \<and> \<not> zone_in_gap z (local_timestamp (today_in tzd ''America/New_York'' now) 8 0)
      \<and> convertToCronTime_moment tzd now ''08:00'' ''America/New_York'' = Some v
      \<and> zone_utcOffset z v = 240"
  have "convertToCronTime_moment tzd now ''08:00'' ''America/New_York''
      = Some (local_timestamp (today_in tzd ''America/New_York'' now) 8 0 + 240 * 60000)"
    using a by (intro new_york_0800_offset[of tzd z now v 240]) simp_all
  then show "convertToCronTime tzd now ''08:00'' ''America/New_York'' = ''0 12 * * *''"
    by (rule new_york_0800_summer)
next
  assume a: "tzd ''America/New_York'' = Some z \<and> zone_ordered z
      \<and> \<not> zone_in_gap z (local_timestamp (today_in tzd ''America/New_York'' now) 8 0)
      \<and> convertToCronTime_moment tzd now ''08:00'' ''America/New_York'' = Some w
      \<and> zone_utcOffset z w = 300"
  have "convertToCronTime_moment tzd now ''08:00'' ''America/New_York''
      = Some (local_timestamp (today_in tzd ''America/New_York'' now) 8 0 + 300 * 60000)"
    using a by (intro new_york_0800_offset[of tzd z now w 300]) simp_all
  then show "convertToCronTime tzd now ''08:00'' ''America/New_York'' = ''0 13 * * *''"
    by (rule new_york_0800_winter)
qed

text \<open>
  Claim C3 as worded fails for a local time that a daylight-saving jump skips. On 9 March 2025
  the clocks of New York go from 02:00 to 03:00. For \<^verbatim>\<open>02:30\<close> the converter returns
  07:30 UTC, and at that instant the wall clock of New York shows 03:30, not 02:30.
\<close>

theorem convertToCronTime_round_trip_counterexample:
  "convertToCronTime tz_new_york noon_9_mar ''02:30'' ''America/New_York'' = ''30 7 * * *''
   \<and> convertToCronTime_moment tz_new_york noon_9_mar ''02:30'' ''America/New_York''
       = Some 1741505400000
   \<and> today_in tz_new_york ''America/New_York'' noon_9_mar = 20156
   \<and> zone_in_gap new_york (local_timestamp 20156 2 30)
   \<and> wall_clock new_york 1741505400000 = (20156, 3, 30)"
  by code_simp

theorem convertToCronTime_round_trip_witness:
  "tz_new_york ''America/New_York'' = Some new_york \<and> zone_ordered new_york
   \<and> (3::nat) < 24 \<and> (0::nat) < 60
   \<and> \<not> zone_in_gap new_york
         (local_timestamp (today_in tz_new_york ''America/New_York'' noon_2_nov) 3 0)
   \<and> (\<exists>u. convertToCronTime_moment tz_new_york noon_2_nov (hhmm 3 0) ''America/New_York'' = Some u
          \<and> convertToCronTime tz_new_york noon_2_nov (hhmm 3 0) ''America/New_York''
              = show_nat (nat ((u div 60000) mod 60)) @ '' ''
                  @ show_nat (nat ((u div 3600000) mod 24)) @ '' * * *''
          \<and> wall_clock new_york u = (today_in tz_new_york ''America/New_York'' noon_2_nov, 3, 0))
   \<and> \<not> zone_in_gap new_york
         (local_timestamp (today_in tz_new_york ''America/New_York'' noon_1_jul) 8 0)
   \<and> convertToCronTime_moment tz_new_york noon_1_jul ''08:00'' ''America/New_York''
       = Some 1751371200000
   \<and> zone_utcOffset new_york 1751371200000 = 240
   \<and> convertToCronTime tz_new_york noon_1_jul ''08:00'' ''America/New_York'' = ''0 12 * * *''
   \<and> \<not> zone_in_gap new_york
         (local_timestamp (today_in tz_new_york ''America/New_York'' noon_1_jan) 8 0)
   \<and> convertToCronTime_moment tz_new_york noon_1_jan ''08:00'' ''America/New_York''
       = Some 1735736400000
   \<and> zone_utcOffset new_york 1735736400000 = 300
   \<and> convertToCronTime tz_new_york noon_1_jan ''08:00'' ''America/New_York'' = ''0 13 * * *''"
proof -
  have z: "tz_new_york ''America/New_York'' = Some new_york"
    by (simp add: tz_new_york_def)
  have o: "zone_ordered new_york" by code_simp
  have b: "(3::nat) < 24" "(0::nat) < 60" by simp_all
  have g1: "\<not> zone_in_gap new_york
         (local_timestamp (today_in tz_new_york ''America/New_York'' noon_2_nov) 3 0)"
    by code_simp
  have g2: "\<not> zone_in_gap new_york
         (local_timestamp (today_in tz_new_york ''America/New_York'' noon_1_jul) 8 0)"
    by code_simp
  have g3: "\<not> zone_in_gap new_york
         (local_timestamp (today_in tz_new_york ''America/New_York'' noon_1_jan) 8 0)"
    by code_simp
  have m2: "convertToCronTime_moment tz_new_york noon_1_jul ''08:00'' ''America/New_York''
       = Some 1751371200000"
    by code_simp
  have m3: "convertToCronTime_moment tz_new_york noon_1_jan ''08:00'' ''America/New_York''
       = Some 1735736400000"
    by code_simp
  have f2: "zone_utcOffset new_york 1751371200000 = 240" by code_simp
  have f3: "zone_utcOffset new_york 1735736400000 = 300" by code_simp
  show ?thesis
    using z o b g1 g2 g3 m2 m3 f2 f3
      convertToCronTime_round_trip[of tz_new_york "''America/New_York''" new_york 3 0 noon_2_nov
        1751371200000 1735736400000]
      convertToCronTime_round_trip[of tz_new_york "''America/New_York''" new_york 8 0 noon_1_jul
        1751371200000 1735736400000]
      convertToCronTime_round_trip[of tz_new_york "''America/New_York''" new_york 8 0 noon_1_jan
        1751371200000 1735736400000]
    by blast
qed


section \<open>Overlapping sync cycles\<close>

text \<open>
  Claim C4 at a failing input. The scheduler holds one running trigger, for \<open>u1\<close>. A sync
  request arrives (say the hourly timer) and, while its cycle waits for the registry, a second
  one (say a change notification). The second request is not dropped: both cycles are in
  progress at once. When the registry has answered both, each cycle has installed and started
  a task for \<open>u1\<close>; the map refers to the second one only, so the first one keeps running
  and no later cycle will stop it: two triggers fire for \<open>u1\<close>.
\<close>

theorem overlapping_syncs_not_dropped:
  "waiting (sync_run tz_new_york noon_1_jan \<lparr> sched = scheduler_with_u1, waiting = [] \<rparr>
      [SyncRequest 1, SyncRequest 2]) = [1, 2]
   \<and> activeTasks (sched (sync_run tz_new_york noon_1_jan
        \<lparr> sched = scheduler_with_u1, waiting = [] \<rparr>
        [SyncRequest 1, SyncRequest 2,
         FetchDone 1 (FetchResult (Some [user_u1]) None),
         FetchDone 2 (FetchResult (Some [user_u1]) None)])) = [(''u1'', 2)]
   \<and> map running (tasks (sched (sync_run tz_new_york noon_1_jan
        \<lparr> sched = scheduler_with_u1, waiting = [] \<rparr>
        [SyncRequest 1, SyncRequest 2,
         FetchDone 1 (FetchResult (Some [user_u1]) None),
         FetchDone 2 (FetchResult (Some [user_u1]) None)]))) = [False, True, True]
   \<and> length (running_for (sched (sync_run tz_new_york noon_1_jan
        \<lparr> sched = scheduler_with_u1, waiting = [] \<rparr>
        [SyncRequest 1, SyncRequest 2,
         FetchDone 1 (FetchResult (Some [user_u1]) None),
         FetchDone 2 (FetchResult (Some [user_u1]) None)])) (Some ''u1'')) = 2"
  by code_simp

section \<open>Concurrent calls of the generation coordinator\<close>

text \<open>
  Claim C5 at a failing input. Two calls for the same key, the second made 5 ms after the
  first, while the first waits for the user's preferences. Neither finds a cache entry or a
  promise in flight, since a call registers its promise only after the preferences have
  arrived; both invoke the generation pipeline, and each returns the brief of its own
  invocation.
\<close>

theorem concurrent_generations_not_coalesced:
  "calls (gen_run (cacheKey ''u1@example.com'' None) \<lparr> gen = fresh_generator, calls = [] \<rparr>
      [Enter 1000, Enter 1005]) = [AwaitPreferences, AwaitPreferences]
   \<and> invocations (gen (gen_run (cacheKey ''u1@example.com'' None)
        \<lparr> gen = fresh_generator, calls = [] \<rparr>
        [Enter 1000, Enter 1005, Resume 0 1100, Resume 1 1105]))
     = [''u1@example.com:unknown'', ''u1@example.com:unknown'']
   \<and> calls (gen_run (cacheKey ''u1@example.com'' None) \<lparr> gen = fresh_generator, calls = [] \<rparr>
        [Enter 1000, Enter 1005, Resume 0 1100, Resume 1 1105,
         Settle 0 (Fulfilled ''brief A''), Resume 0 5000,
         Settle 1 (Fulfilled ''brief B''), Resume 1 6000])
     = [ReturnedBrief ''brief A'', ReturnedBrief ''brief B'']"
  by code_simp
end
